theory Spec2Isabelle
  imports Main "HOL-Library.AList"
begin

section \<open>JavaScript values used by \<^verbatim>\<open>CryptoID.db.ts\<close>\<close>

text \<open>
  The module stores two kinds of records, \<^verbatim>\<open>ProfileRecord\<close> and \<^verbatim>\<open>CryptoIDRecord\<close>.
  Their primary \<^verbatim>\<open>identifier\<close> is a class instance in memory and a string in the
  database. The identifiers nested inside a record (\<^verbatim>\<open>linkedCryptoID\<close>, the members of
  \<^verbatim>\<open>attachedProfiles\<close>) are kept as objects in both forms; after a read from the
  database they are plain objects, and the \<^verbatim>\<open>...Out\<close> functions give them their class
  back with \<^verbatim>\<open>Object.setPrototypeOf\<close>, which writes to the object it is given.
  Nested identifiers therefore live in an explicit object store, and a record holds
  their addresses.
\<close>

text \<open>The prototype of an object: what decides which methods it has.\<close>

datatype prototype = Object_prototype | PersonIdentifier_prototype | ECKeyIdentifier_prototype

text \<open>
  An object: its prototype, its own properties (name and value, both strings), and
  whether it is extensible (\<^verbatim>\<open>Object.freeze\<close>, \<^verbatim>\<open>Object.seal\<close> and
  \<^verbatim>\<open>Object.preventExtensions\<close> make it not so; a class instance and an object read
  from the database are extensible). \<^verbatim>\<open>x.linkedCryptoID.type\<close> reads the own property
  \<^verbatim>\<open>type\<close>; a name that is not among the properties reads as \<^verbatim>\<open>undefined\<close>
  (\<open>None\<close>).
\<close>

record object =
  proto :: prototype
  props :: "(string \<times> string) list"
  extensible :: bool

type_synonym addr = nat

type_synonym heap = "object list"

definition lookup :: "heap \<Rightarrow> addr \<Rightarrow> object option" where
  "lookup h a = (if a < length h then Some (h ! a) else None)"

text \<open>
  A nested identifier, as a record holds it, is \<open>Some a\<close>, the object at address
  \<open>a\<close>, or \<open>None\<close>, which is \<^verbatim>\<open>null\<close> or \<^verbatim>\<open>undefined\<close>. An address outside the
  store stands for any other value that is not an object (a string, a number): it
  is truthy and has no properties.
\<close>

text \<open>\<^verbatim>\<open>o.name\<close>, for a value \<open>o\<close> that is neither \<^verbatim>\<open>null\<close> nor \<^verbatim>\<open>undefined\<close>.\<close>

definition get_prop :: "heap \<Rightarrow> addr \<Rightarrow> string \<Rightarrow> string option" where
  "get_prop h a name = (case lookup h a of None \<Rightarrow> None | Some ob \<Rightarrow> map_of (props ob) name)"

text \<open>
  What a function of the module can throw. The source itself throws one kind of
  error: \<open>Error msg\<close> is \<^verbatim>\<open>new Error(msg)\<close>. \<open>TypeError\<close> is what
  \<^verbatim>\<open>Object.setPrototypeOf\<close> throws. The specification names errors by what went
  wrong: its \<^verbatim>\<open>DecodeError\<close> is the error raised for an unknown or unsupported
  identifier variant during decode, in this module
  \<^verbatim>\<open>Error('Unknown type of linkedCryptoID')\<close>. \<open>NotFoundError\<close> and \<open>ConstraintError\<close>
  are exceptions of the storage engine; \<open>NotFoundError\<close> is also the
  specification's error of an update that finds no record.
\<close>

datatype error = Error string | TypeError | NotFoundError | ConstraintError

text \<open>
  \<^verbatim>\<open>Object.setPrototypeOf(o, p)\<close>, as ECMAScript defines it for a prototype \<open>p\<close> that
  is an object:
  \<^item> on \<^verbatim>\<open>null\<close> or \<^verbatim>\<open>undefined\<close> it throws \<open>TypeError\<close>;
  \<^item> on any other value that is not an object it changes nothing;
  \<^item> on an object that has the prototype \<open>p\<close> already it changes nothing;
  \<^item> on an extensible object it replaces the prototype in place and leaves the own
    properties alone;
  \<^item> on an object that is not extensible and has another prototype it throws
    \<open>TypeError\<close>.
\<close>

definition setPrototypeOf :: "addr option \<Rightarrow> prototype \<Rightarrow> heap \<Rightarrow> error + heap" where
  "setPrototypeOf v p h =
    (case v of
       None \<Rightarrow> Inl TypeError
     | Some a \<Rightarrow>
        (case lookup h a of
           None \<Rightarrow> Inr h
         | Some ob \<Rightarrow>
            if proto ob = p then Inr h
            else if extensible ob then Inr (h[a := ob\<lparr>proto := p\<rparr>])
            else Inl TypeError))"

text \<open>
  Whether \<^verbatim>\<open>Object.setPrototypeOf(v, p)\<close> returns: \<open>v\<close> is not \<^verbatim>\<open>null\<close> or
  \<^verbatim>\<open>undefined\<close>, and if it is an object, the object is extensible or has the
  prototype \<open>p\<close> already.
\<close>

definition settable :: "prototype \<Rightarrow> heap \<Rightarrow> addr option \<Rightarrow> bool" where
  "settable p h v =
    (case v of
       None \<Rightarrow> False
     | Some a \<Rightarrow> (case lookup h a of None \<Rightarrow> True | Some ob \<Rightarrow> extensible ob \<or> proto ob = p))"

text \<open>Opaque handles and timestamps.\<close>

datatype CryptoKey = CryptoKey nat

datatype Date = Date int

subsection \<open>Records\<close>

text \<open>
  \<^verbatim>\<open>interface ProfileRecord\<close> and \<^verbatim>\<open>interface CryptoIDRecord\<close>, with the type of
  the primary identifier as a parameter:
  \<^verbatim>\<open>type ProfileRecordDb = Omit<ProfileRecord, 'identifier'> & { identifier: string }\<close>
  is \<open>string ProfileRecord\<close>, and likewise for \<^verbatim>\<open>CryptoIDRecordDb\<close>. An optional field
  is an \<open>option\<close>; \<^verbatim>\<open>linkedCryptoID\<close> is \<open>None\<close> when it is absent, which is when
  \<^verbatim>\<open>if (x.linkedCryptoID)\<close> skips its block.
  \<^verbatim>\<open>attachedProfiles\<close>, a \<^verbatim>\<open>Set\<close>, is the list of its members in iteration order.
\<close>

record 'i ProfileRecord =
  "identifier" :: 'i
  nickname :: "string option"
  localKey :: "CryptoKey option"
  linkedCryptoID :: "addr option"
  createdAt :: Date
  updatedAt :: Date

record 'i CryptoIDRecord =
  "identifier" :: 'i
  publicKey :: CryptoKey
  privateKey :: "CryptoKey option"
  localKey :: "CryptoKey option"
  nickname :: string
  attachedProfiles :: "addr option list"
  createdAt :: Date
  updatedAt :: Date

text \<open>
  \<^verbatim>\<open>Partial<CryptoIDRecord> & Pick<CryptoIDRecord, 'identifier'>\<close>, the argument of
  \<^verbatim>\<open>updateCryptoID_DB\<close>: every field but the identifier may be left out.
\<close>

record 'i PartialCryptoIDRecord =
  "identifier" :: 'i
  publicKey :: "CryptoKey option"
  privateKey :: "CryptoKey option"
  localKey :: "CryptoKey option"
  nickname :: "string option"
  attachedProfiles :: "addr option list option"
  createdAt :: "Date option"
  updatedAt :: "Date option"

section \<open>The record transcoders (region \<^verbatim>\<open>out db & to db\<close>)\<close>

text \<open>
  \<^verbatim>\<open>Identifier.toText\<close> and \<^verbatim>\<open>Identifier.fromString\<close> are imported from
  \<^verbatim>\<open>'../type'\<close>; the transcoders take them as the parameters \<open>toText\<close> and
  \<open>fromString\<close>. Every transcoder takes the object store and returns it with its
  result, so that what it writes is visible. An exception is the result \<open>Inl e\<close>.
\<close>

text \<open>
  \<^verbatim>\<open>function profileIn(x) { return { ...x, identifier: x.identifier.toText() } }\<close>
\<close>

definition profileIn ::
  "('i \<Rightarrow> string) \<Rightarrow> 'i ProfileRecord \<Rightarrow> heap \<Rightarrow> string ProfileRecord \<times> heap" where
  "profileIn toText x h =
    (\<lparr> ProfileRecord.identifier = toText (ProfileRecord.identifier x),
        ProfileRecord.nickname = ProfileRecord.nickname x,
        ProfileRecord.localKey = ProfileRecord.localKey x,
        ProfileRecord.linkedCryptoID = ProfileRecord.linkedCryptoID x,
        ProfileRecord.createdAt = ProfileRecord.createdAt x,
        ProfileRecord.updatedAt = ProfileRecord.updatedAt x \<rparr>, h)"

text \<open>
  The last statement of \<^verbatim>\<open>profileOut\<close>:
  \<^verbatim>\<open>return { ...x, identifier: Identifier.fromString(x.identifier) as PersonIdentifier }\<close>.
  An exception of \<open>fromString\<close> passes through.
\<close>

definition profileOut_return ::
  "(string \<Rightarrow> error + 'i) \<Rightarrow> string ProfileRecord \<Rightarrow> heap \<Rightarrow> (error + 'i ProfileRecord) \<times> heap" where
  "profileOut_return fromString x h =
    (case fromString (ProfileRecord.identifier x) of
       Inl e \<Rightarrow> (Inl e, h)
     | Inr i \<Rightarrow>
        (Inr \<lparr> ProfileRecord.identifier = i,
               ProfileRecord.nickname = ProfileRecord.nickname x,
               ProfileRecord.localKey = ProfileRecord.localKey x,
               ProfileRecord.linkedCryptoID = ProfileRecord.linkedCryptoID x,
               ProfileRecord.createdAt = ProfileRecord.createdAt x,
               ProfileRecord.updatedAt = ProfileRecord.updatedAt x \<rparr>, h))"

text \<open>
  \<^verbatim>\<open>
  function profileOut(x) {
      if (x.linkedCryptoID) {
          if (x.linkedCryptoID.type === 'ec_key')
              Object.setPrototypeOf(x.linkedCryptoID, ECKeyIdentifier.prototype)
          else throw new Error('Unknown type of linkedCryptoID')
      }
      return { ...x, identifier: Identifier.fromString(x.identifier) as PersonIdentifier }
  }\<close>
\<close>

definition profileOut ::
  "(string \<Rightarrow> error + 'i) \<Rightarrow> string ProfileRecord \<Rightarrow> heap \<Rightarrow> (error + 'i ProfileRecord) \<times> heap" where
  "profileOut fromString x h =
    (case ProfileRecord.linkedCryptoID x of
       Some a \<Rightarrow>
         if get_prop h a ''type'' = Some ''ec_key''
         then (case setPrototypeOf (Some a) ECKeyIdentifier_prototype h of
                 Inl e \<Rightarrow> (Inl e, h)
               | Inr h' \<Rightarrow> profileOut_return fromString x h')
         else (Inl (Error ''Unknown type of linkedCryptoID''), h)
     | None \<Rightarrow> profileOut_return fromString x h)"

text \<open>
  \<^verbatim>\<open>function cryptoKeyRecordIn(x) { return { ...x, identifier: x.identifier.toText() } }\<close>
\<close>

definition cryptoKeyRecordIn ::
  "('i \<Rightarrow> string) \<Rightarrow> 'i CryptoIDRecord \<Rightarrow> heap \<Rightarrow> string CryptoIDRecord \<times> heap" where
  "cryptoKeyRecordIn toText x h =
    (\<lparr> CryptoIDRecord.identifier = toText (CryptoIDRecord.identifier x),
        CryptoIDRecord.publicKey = CryptoIDRecord.publicKey x,
        CryptoIDRecord.privateKey = CryptoIDRecord.privateKey x,
        CryptoIDRecord.localKey = CryptoIDRecord.localKey x,
        CryptoIDRecord.nickname = CryptoIDRecord.nickname x,
        CryptoIDRecord.attachedProfiles = CryptoIDRecord.attachedProfiles x,
        CryptoIDRecord.createdAt = CryptoIDRecord.createdAt x,
        CryptoIDRecord.updatedAt = CryptoIDRecord.updatedAt x \<rparr>, h)"

text \<open>
  The last statement of \<^verbatim>\<open>cryptoKeyRecordOut\<close>:
  \<^verbatim>\<open>return { ...x, identifier: Identifier.fromString(x.identifier) as CryptoIDIdentifier }\<close>.
\<close>

definition cryptoKeyRecordOut_return ::
  "(string \<Rightarrow> error + 'i) \<Rightarrow> string CryptoIDRecord \<Rightarrow> heap \<Rightarrow> (error + 'i CryptoIDRecord) \<times> heap" where
  "cryptoKeyRecordOut_return fromString x h =
    (case fromString (CryptoIDRecord.identifier x) of
       Inl e \<Rightarrow> (Inl e, h)
     | Inr i \<Rightarrow>
        (Inr \<lparr> CryptoIDRecord.identifier = i,
               CryptoIDRecord.publicKey = CryptoIDRecord.publicKey x,
               CryptoIDRecord.privateKey = CryptoIDRecord.privateKey x,
               CryptoIDRecord.localKey = CryptoIDRecord.localKey x,
               CryptoIDRecord.nickname = CryptoIDRecord.nickname x,
               CryptoIDRecord.attachedProfiles = CryptoIDRecord.attachedProfiles x,
               CryptoIDRecord.createdAt = CryptoIDRecord.createdAt x,
               CryptoIDRecord.updatedAt = CryptoIDRecord.updatedAt x \<rparr>, h))"

text \<open>
  \<^verbatim>\<open>
  function cryptoKeyRecordOut(x) {
      for (const each of x.attachedProfiles) {
          Object.setPrototypeOf(each, PersonIdentifier.prototype)
      }
      return { ...x, identifier: Identifier.fromString(x.identifier) as CryptoIDIdentifier }
  }\<close>
  The loop visits the members in iteration order and ends at the first exception,
  with the members before it already written.
\<close>

fun cryptoKeyRecordOut_loop :: "addr option list \<Rightarrow> heap \<Rightarrow> error option \<times> heap" where
  "cryptoKeyRecordOut_loop [] h = (None, h)"
| "cryptoKeyRecordOut_loop (each # rest) h =
    (case setPrototypeOf each PersonIdentifier_prototype h of
       Inl e \<Rightarrow> (Some e, h)
     | Inr h' \<Rightarrow> cryptoKeyRecordOut_loop rest h')"

definition cryptoKeyRecordOut ::
  "(string \<Rightarrow> error + 'i) \<Rightarrow> string CryptoIDRecord \<Rightarrow> heap \<Rightarrow> (error + 'i CryptoIDRecord) \<times> heap" where
  "cryptoKeyRecordOut fromString x h =
    (case cryptoKeyRecordOut_loop (CryptoIDRecord.attachedProfiles x) h of
       (Some e, h') \<Rightarrow> (Inl e, h')
     | (None, h') \<Rightarrow> cryptoKeyRecordOut_return fromString x h')"

section \<open>The identifier codec\<close>

text \<open>
  Modelled from the spec: the identifier classes and their codec (\<^verbatim>\<open>Identifier\<close>,
  \<^verbatim>\<open>PersonIdentifier\<close>, \<^verbatim>\<open>ECKeyIdentifier\<close> of \<^verbatim>\<open>'../type'\<close>) are not among the
  sources. Section 3 has two variants, a person identifier and a key-based identifier;
  section 4.1 has \<^verbatim>\<open>encode\<close> produce a canonical type-tagged string and \<^verbatim>\<open>decode\<close>
  parse the tag, construct the matching variant and fail with a \<^verbatim>\<open>DecodeError\<close>
  ("unknown identifier type", here \<open>Error ''unknown identifier type''\<close>) on any
  other tag; section 8 writes the strings \<^verbatim>\<open>person:alice\<close> and
  \<^verbatim>\<open>ec_key:0xABCD\<close>. The variant of a value (its constructor) is its capability
  set.
\<close>

datatype Identifier = PersonIdentifier string | ECKeyIdentifier string

fun Identifier_toText :: "Identifier \<Rightarrow> string" where
  "Identifier_toText (PersonIdentifier s) = ''person:'' @ s"
| "Identifier_toText (ECKeyIdentifier s) = ''ec_key:'' @ s"

text \<open>
  Modelled from the spec: \<^verbatim>\<open>decode\<close> (section 4.1). The tag is the text before the
  first colon, the rest is the variant's payload.
\<close>

definition Identifier_fromString :: "string \<Rightarrow> error + Identifier" where
  "Identifier_fromString s =
    (let tag = takeWhile (\<lambda>c. c \<noteq> CHR '':'') s;
         rest = drop (Suc (length tag)) s
     in if length tag < length s \<and> tag = ''person'' then Inr (PersonIdentifier rest)
        else if length tag < length s \<and> tag = ''ec_key'' then Inr (ECKeyIdentifier rest)
        else Inl (Error ''unknown identifier type''))"

section \<open>The store manager (\<^verbatim>\<open>const db\<close>)\<close>

subsection \<open>The schema upgrade\<close>

text \<open>
  Modelled from the spec: the storage engine is an external collaborator (sections 1
  and 6), reached through \<^verbatim>\<open>idb\<close>. A database is the list of its object stores (the
  partitions), each with its inline key path and its secondary indexes.
  \<^verbatim>\<open>createObjectStore\<close> adds a partition and \<^verbatim>\<open>createIndex\<close> adds an index to a
  partition; the engine refuses a name that exists (\<open>ConstraintError\<close>) and an index
  on a partition that does not (\<open>NotFoundError\<close>).
\<close>

record index =
  index_name :: string
  index_keyPath :: string
  unique :: bool

record objectStore =
  name :: string
  keyPath :: string
  indexes :: "index list"

type_synonym IDBPDatabase = "objectStore list"

definition createObjectStore :: "string \<Rightarrow> string \<Rightarrow> IDBPDatabase \<Rightarrow> error + IDBPDatabase" where
  "createObjectStore n kp db =
    (if n \<in> set (map name db) then Inl ConstraintError
     else Inr (db @ [\<lparr> name = n, keyPath = kp, indexes = [] \<rparr>]))"

definition createIndex ::
  "string \<Rightarrow> string \<Rightarrow> string \<Rightarrow> bool \<Rightarrow> IDBPDatabase \<Rightarrow> error + IDBPDatabase" where
  "createIndex store n kp u db =
    (case find (\<lambda>s. name s = store) db of
       None \<Rightarrow> Inl NotFoundError
     | Some s \<Rightarrow>
        if n \<in> set (map index_name (indexes s)) then Inl ConstraintError
        else Inr (map (\<lambda>s. if name s = store
                            then s\<lparr>indexes := indexes s @ [\<lparr> index_name = n, index_keyPath = kp, unique = u \<rparr>]\<rparr>
                            else s) db))"

text \<open>
  \<^verbatim>\<open>
  function v0_v1() {
      db.createObjectStore('self', { keyPath: 'identifier' })
      db.createObjectStore('others', { keyPath: 'identifier' })
      db.createObjectStore('profiles', { keyPath: 'identifier' })
      transaction.objectStore('profiles').createIndex('network', 'network', { unique: false })
  }\<close>
  An exception of a call ends the function.
\<close>

definition v0_v1 :: "IDBPDatabase \<Rightarrow> error + IDBPDatabase" where
  "v0_v1 db =
    (case createObjectStore ''self'' ''identifier'' db of
       Inl e \<Rightarrow> Inl e
     | Inr db1 \<Rightarrow>
        (case createObjectStore ''others'' ''identifier'' db1 of
           Inl e \<Rightarrow> Inl e
         | Inr db2 \<Rightarrow>
            (case createObjectStore ''profiles'' ''identifier'' db2 of
               Inl e \<Rightarrow> Inl e
             | Inr db3 \<Rightarrow> createIndex ''profiles'' ''network'' ''network'' False db3)))"

text \<open>
  \<^verbatim>\<open>upgrade(db, oldVersion, newVersion, transaction) { ...; if (oldVersion < 1) v0_v1() }\<close>.
  The transaction gives access to the stores of \<open>db\<close>.
\<close>

definition upgrade :: "IDBPDatabase \<Rightarrow> nat \<Rightarrow> nat \<Rightarrow> error + IDBPDatabase" where
  "upgrade db oldVersion newVersion = (if oldVersion < 1 then v0_v1 db else Inr db)"

subsection \<open>Lazy opening\<close>

text \<open>
  \<^verbatim>\<open>
  const db = (function() {
      let db: IDBPDatabase<CryptoID_DB> = undefined as any
      return async () => {
          if (typeof db === 'undefined')
              return openDB<CryptoID_DB>('maskbook-crypto-id', 1, { ... }).then(x => (db = x))
          else return db
      }
  })()\<close>
  JavaScript runs one task at a time: a call of \<^verbatim>\<open>db()\<close> runs to its \<^verbatim>\<open>return\<close>
  without interruption, and the callback of \<^verbatim>\<open>then\<close> runs later, when the engine has
  opened the database. A run of the program is therefore a list of events: a call of
  \<^verbatim>\<open>db()\<close>, and the fulfilment or rejection of the promise of the \<open>k\<close>-th
  \<^verbatim>\<open>openDB\<close> call. The handle that the \<open>k\<close>-th \<^verbatim>\<open>openDB\<close> call delivers is \<open>k\<close>.
\<close>

datatype event = Call | Fulfil nat | Reject nat

text \<open>What the promise returned by a call of \<^verbatim>\<open>db()\<close> has come to.\<close>

datatype outcome = Pending nat | Fulfilled nat | Rejected nat

text \<open>
  The state: the closure variable \<^verbatim>\<open>db\<close> (\<open>None\<close> is \<^verbatim>\<open>undefined\<close>), the \<^verbatim>\<open>openDB\<close>
  calls in flight, the number of \<^verbatim>\<open>openDB\<close> calls made, and the promise of each call
  of \<^verbatim>\<open>db()\<close> in the order of the calls.
\<close>

record store_manager =
  db :: "nat option"
  in_flight :: "nat list"
  opened :: nat
  returned :: "outcome list"

definition uninitialized :: store_manager where
  "uninitialized = \<lparr> db = None, in_flight = [], opened = 0, returned = [] \<rparr>"

fun settle :: "nat \<Rightarrow> outcome \<Rightarrow> outcome \<Rightarrow> outcome" where
  "settle k res (Pending j) = (if j = k then res else Pending j)"
| "settle k res out = out"

fun step :: "event \<Rightarrow> store_manager \<Rightarrow> store_manager" where
  "step Call s =
    (case db s of
       None \<Rightarrow> s\<lparr> in_flight := in_flight s @ [opened s],
                  opened := Suc (opened s),
                  returned := returned s @ [Pending (opened s)] \<rparr>
     | Some x \<Rightarrow> s\<lparr> returned := returned s @ [Fulfilled x] \<rparr>)"
| "step (Fulfil k) s =
    (if k \<in> set (in_flight s)
     then s\<lparr> db := Some k,
             in_flight := removeAll k (in_flight s),
             returned := map (settle k (Fulfilled k)) (returned s) \<rparr>
     else s)"
| "step (Reject k) s =
    (if k \<in> set (in_flight s)
     then s\<lparr> in_flight := removeAll k (in_flight s),
             returned := map (settle k (Rejected k)) (returned s) \<rparr>
     else s)"

definition run :: "event list \<Rightarrow> store_manager \<Rightarrow> store_manager" where
  "run es s = fold step es s"

section \<open>The record access functions (region \<^verbatim>\<open>Plain methods\<close>)\<close>

text \<open>
  Modelled from the spec: the sources only declare \<^verbatim>\<open>createCryptoID_DB\<close>,
  \<^verbatim>\<open>queryCryptoID_DB\<close>, \<^verbatim>\<open>updateCryptoID_DB\<close> and \<^verbatim>\<open>deleteCryptoID_DB\<close>
  (\<^verbatim>\<open>declare function\<close>, no body). Their definitions follow section 4.4 of the
  specification. The two CryptoID partitions hold stored records under their inline
  key, the \<^verbatim>\<open>identifier\<close> string; a partition is an association list, in the order in
  which a scan visits it.
\<close>

type_synonym partition = "(string \<times> string CryptoIDRecord) list"

record db_state =
  self :: partition
  others :: partition

definition empty_db :: db_state where
  "empty_db = \<lparr> self = [], others = [] \<rparr>"

text \<open>
  Modelled from the spec: \<^verbatim>\<open>put\<close> with upsert semantics (section 4.4), under the
  record's inline key.
\<close>

definition put :: "string CryptoIDRecord \<Rightarrow> partition \<Rightarrow> partition" where
  "put r p = AList.update (CryptoIDRecord.identifier r) r p"

text \<open>
  Modelled from the spec: \<^verbatim>\<open>createCryptoID(record)\<close> "encodes via 4.2, routes by
  presence of private key handle to self or others, writes with put (upsert
  semantics)" (section 4.4). Section 3 has a record live "exclusively" in the
  partition that its private key selects and its identifier "never present in both
  simultaneously": the write leaves no entry under the identifier in the other
  partition.
\<close>

definition createCryptoID_DB ::
  "('i \<Rightarrow> string) \<Rightarrow> 'i CryptoIDRecord \<Rightarrow> db_state \<times> heap \<Rightarrow> (error + unit) \<times> db_state \<times> heap" where
  "createCryptoID_DB toText x \<sigma> =
    (case \<sigma> of (st, h) \<Rightarrow>
      (case cryptoKeyRecordIn toText x h of (r, h') \<Rightarrow>
        if CryptoIDRecord.privateKey r \<noteq> None
        then (Inr (), st\<lparr> others := AList.delete (CryptoIDRecord.identifier r) (others st),
                          self := put r (self st) \<rparr>, h')
        else (Inr (), st\<lparr> self := AList.delete (CryptoIDRecord.identifier r) (self st),
                          others := put r (others st) \<rparr>, h')))"

text \<open>
  Modelled from the spec: the two merge modes of \<^verbatim>\<open>updateCryptoID\<close>. \<^verbatim>\<open>overwrite\<close>
  "replaces every field present in the partial with the new value (missing fields
  retain previous values)"; \<^verbatim>\<open>append\<close> "must union rather than replace"
  \<^verbatim>\<open>attachedProfiles\<close> "while still replacing scalar fields". The identifier is always
  present in the partial record and is stored encoded.
\<close>

datatype mode = mode_append | mode_overwrite

definition merge ::
  "('i \<Rightarrow> string) \<Rightarrow> mode \<Rightarrow> string CryptoIDRecord \<Rightarrow> 'i PartialCryptoIDRecord \<Rightarrow> string CryptoIDRecord" where
  "merge toText m old partial =
    \<lparr> CryptoIDRecord.identifier = toText (PartialCryptoIDRecord.identifier partial),
      CryptoIDRecord.publicKey =
        (case PartialCryptoIDRecord.publicKey partial of
           Some v \<Rightarrow> v | None \<Rightarrow> CryptoIDRecord.publicKey old),
      CryptoIDRecord.privateKey =
        (case PartialCryptoIDRecord.privateKey partial of
           Some v \<Rightarrow> Some v | None \<Rightarrow> CryptoIDRecord.privateKey old),
      CryptoIDRecord.localKey =
        (case PartialCryptoIDRecord.localKey partial of
           Some v \<Rightarrow> Some v | None \<Rightarrow> CryptoIDRecord.localKey old),
      CryptoIDRecord.nickname =
        (case PartialCryptoIDRecord.nickname partial of
           Some v \<Rightarrow> v | None \<Rightarrow> CryptoIDRecord.nickname old),
      CryptoIDRecord.attachedProfiles =
        (case PartialCryptoIDRecord.attachedProfiles partial of
           Some v \<Rightarrow>
             (case m of
                mode_overwrite \<Rightarrow> v
              | mode_append \<Rightarrow>
                  CryptoIDRecord.attachedProfiles old
                    @ filter (\<lambda>a. a \<notin> set (CryptoIDRecord.attachedProfiles old)) v)
         | None \<Rightarrow> CryptoIDRecord.attachedProfiles old),
      CryptoIDRecord.createdAt =
        (case PartialCryptoIDRecord.createdAt partial of
           Some v \<Rightarrow> v | None \<Rightarrow> CryptoIDRecord.createdAt old),
      CryptoIDRecord.updatedAt =
        (case PartialCryptoIDRecord.updatedAt partial of
           Some v \<Rightarrow> v | None \<Rightarrow> CryptoIDRecord.updatedAt old) \<rparr>"

text \<open>
  Modelled from the spec: \<^verbatim>\<open>updateCryptoID(partialRecord, mode)\<close> "reads the existing
  record by identifier" in both partitions, "if absent, fails with NotFoundError";
  "after merge, re-evaluates partition membership (presence of private key handle)
  and, if it changed, deletes from the old partition and inserts into the new one".
\<close>

definition updateCryptoID_DB ::
  "('i \<Rightarrow> string) \<Rightarrow> 'i PartialCryptoIDRecord \<Rightarrow> mode \<Rightarrow> db_state \<times> heap
    \<Rightarrow> (error + unit) \<times> db_state \<times> heap" where
  "updateCryptoID_DB toText partial m \<sigma> =
    (case \<sigma> of (st, h) \<Rightarrow>
      (let key = toText (PartialCryptoIDRecord.identifier partial) in
       case map_of (self st) key of
         Some old \<Rightarrow>
           (let new = merge toText m old partial in
            if CryptoIDRecord.privateKey new \<noteq> None
            then (Inr (), st\<lparr> self := put new (self st) \<rparr>, h)
            else (Inr (), st\<lparr> self := AList.delete key (self st),
                               others := put new (others st) \<rparr>, h))
       | None \<Rightarrow>
           (case map_of (others st) key of
              Some old \<Rightarrow>
                (let new = merge toText m old partial in
                 if CryptoIDRecord.privateKey new \<noteq> None
                 then (Inr (), st\<lparr> others := AList.delete key (others st),
                                    self := put new (self st) \<rparr>, h)
                 else (Inr (), st\<lparr> others := put new (others st) \<rparr>, h))
            | None \<Rightarrow> (Inl NotFoundError, st, h))))"

text \<open>
  Modelled from the spec: \<^verbatim>\<open>deleteCryptoID(identifier)\<close> "deletes from whichever
  partition currently holds it; deleting a non-existent identifier is a no-op, not
  an error".
\<close>

definition deleteCryptoID_DB ::
  "('i \<Rightarrow> string) \<Rightarrow> 'i \<Rightarrow> db_state \<times> heap \<Rightarrow> (error + unit) \<times> db_state \<times> heap" where
  "deleteCryptoID_DB toText i \<sigma> =
    (case \<sigma> of (st, h) \<Rightarrow>
      (let key = toText i in
       (Inr (), st\<lparr> self := AList.delete key (self st),
                    others := AList.delete key (others st) \<rparr>, h)))"






section \<open>Example values\<close>

text \<open>
  A profile and a CryptoID as the database returns them: the nested identifiers are
  plain objects. The object at address 0 is the key-based identifier
  \<^verbatim>\<open>ec_key:0xABCD\<close>, the object at address 1 the person identifier \<^verbatim>\<open>person:alice\<close>.
\<close>

definition example_heap :: heap where
  "example_heap =
    [\<lparr> proto = Object_prototype, props = [(''type'', ''ec_key''), (''key'', ''0xABCD'')],
       extensible = True \<rparr>,
     \<lparr> proto = Object_prototype, props = [(''type'', ''person''), (''id'', ''alice'')],
       extensible = True \<rparr>]"

definition example_profile :: "string ProfileRecord" where
  "example_profile =
    \<lparr> ProfileRecord.identifier = ''person:alice'', ProfileRecord.nickname = None,
      ProfileRecord.localKey = None, ProfileRecord.linkedCryptoID = Some 0,
      ProfileRecord.createdAt = Date 0, ProfileRecord.updatedAt = Date 0 \<rparr>"

definition example_cryptoID :: "string CryptoIDRecord" where
  "example_cryptoID =
    \<lparr> CryptoIDRecord.identifier = ''ec_key:0xABCD'', CryptoIDRecord.publicKey = CryptoKey 1,
      CryptoIDRecord.privateKey = None, CryptoIDRecord.localKey = None,
      CryptoIDRecord.nickname = ''K'', CryptoIDRecord.attachedProfiles = [Some 1],
      CryptoIDRecord.createdAt = Date 0, CryptoIDRecord.updatedAt = Date 0 \<rparr>"

text \<open>
  The same two objects after \<^verbatim>\<open>Object.freeze\<close>: plain objects that are not
  extensible.
\<close>

definition frozen_heap :: heap where
  "frozen_heap =
    [\<lparr> proto = Object_prototype, props = [(''type'', ''ec_key''), (''key'', ''0xABCD'')],
       extensible = False \<rparr>,
     \<lparr> proto = Object_prototype, props = [(''type'', ''person''), (''id'', ''alice'')],
       extensible = False \<rparr>]"

text \<open>The same values in memory: the nested identifiers are class instances.\<close>

definition memory_heap :: heap where
  "memory_heap =
    [\<lparr> proto = ECKeyIdentifier_prototype, props = [(''type'', ''ec_key''), (''key'', ''0xABCD'')],
       extensible = True \<rparr>,
     \<lparr> proto = PersonIdentifier_prototype, props = [(''type'', ''person''), (''id'', ''alice'')],
       extensible = True \<rparr>]"

definition memory_profile :: "Identifier ProfileRecord" where
  "memory_profile =
    \<lparr> ProfileRecord.identifier = PersonIdentifier ''alice'', ProfileRecord.nickname = None,
      ProfileRecord.localKey = None, ProfileRecord.linkedCryptoID = Some 0,
      ProfileRecord.createdAt = Date 0, ProfileRecord.updatedAt = Date 0 \<rparr>"

definition memory_cryptoID :: "Identifier CryptoIDRecord" where
  "memory_cryptoID =
    \<lparr> CryptoIDRecord.identifier = ECKeyIdentifier ''0xABCD'', CryptoIDRecord.publicKey = CryptoKey 1,
      CryptoIDRecord.privateKey = None, CryptoIDRecord.localKey = None,
      CryptoIDRecord.nickname = ''K'', CryptoIDRecord.attachedProfiles = [Some 1],
      CryptoIDRecord.createdAt = Date 0, CryptoIDRecord.updatedAt = Date 0 \<rparr>"

section \<open>Invariants of the two CryptoID partitions\<close>




section \<open>Example states\<close>

text \<open>The schema after the upgrade of a new database.\<close>

definition schema_v1 :: IDBPDatabase where
  "schema_v1 =
    [\<lparr> name = ''self'', keyPath = ''identifier'', indexes = [] \<rparr>,
     \<lparr> name = ''others'', keyPath = ''identifier'', indexes = [] \<rparr>,
     \<lparr> name = ''profiles'', keyPath = ''identifier'',
       indexes = [\<lparr> index_name = ''network'', index_keyPath = ''network'', unique = False \<rparr>] \<rparr>]"

text \<open>
  A partial record that adds a private key to \<^verbatim>\<open>ec_key:0xABCD\<close>, and the state after
  that CryptoID was created without a private key.
\<close>

definition example_partial :: "Identifier PartialCryptoIDRecord" where
  "example_partial =
    \<lparr> PartialCryptoIDRecord.identifier = ECKeyIdentifier ''0xABCD'',
      PartialCryptoIDRecord.publicKey = None,
      PartialCryptoIDRecord.privateKey = Some (CryptoKey 2),
      PartialCryptoIDRecord.localKey = None,
      PartialCryptoIDRecord.nickname = None,
      PartialCryptoIDRecord.attachedProfiles = None,
      PartialCryptoIDRecord.createdAt = None,
      PartialCryptoIDRecord.updatedAt = None \<rparr>"

definition example_others_state :: db_state where
  "example_others_state =
     fst (snd (createCryptoID_DB Identifier_toText memory_cryptoID (empty_db, memory_heap)))"

section \<open>The object store under \<^verbatim>\<open>Object.setPrototypeOf\<close>\<close>

lemma lookup_update:
  "lookup (h[a := ob]) b = (if b = a \<and> a < length h then Some ob else lookup h b)"
  by (simp add: lookup_def)

lemma lookup_Some_length: "lookup h a = Some ob \<Longrightarrow> a < length h"
  by (simp add: lookup_def split: if_splits)

lemma setPrototypeOf_settable: "(\<exists>h'. setPrototypeOf v p h = Inr h') \<longleftrightarrow> settable p h v"
  by (auto simp: setPrototypeOf_def settable_def split: option.splits)

lemma setPrototypeOf_Inl:
  "setPrototypeOf v p h = Inl e \<Longrightarrow> e = TypeError \<and> \<not> settable p h v"
  by (auto simp: setPrototypeOf_def settable_def split: option.splits if_splits)

lemma setPrototypeOf_Inr:
  assumes "setPrototypeOf v p h = Inr h'"
  shows "length h' = length h"
    and "lookup h' b = (if v = Some b then map_option (\<lambda>ob. ob\<lparr>proto := p\<rparr>) (lookup h b) else lookup h b)"
proof -
  from assms obtain a where v: "v = Some a"
    by (cases v) (simp_all add: setPrototypeOf_def)
  show "length h' = length h"
    using assms v by (auto simp: setPrototypeOf_def split: option.splits if_splits)
  show "lookup h' b = (if v = Some b then map_option (\<lambda>ob. ob\<lparr>proto := p\<rparr>) (lookup h b) else lookup h b)"
  proof (cases "lookup h a")
    case None
    then show ?thesis using assms v by (auto simp: setPrototypeOf_def)
  next
    case (Some ob)
    then have "a < length h" by (rule lookup_Some_length)
    then show ?thesis using assms v Some
      by (auto simp: setPrototypeOf_def lookup_update split: if_splits)
  qed
qed

lemma setPrototypeOf_same:
  "\<forall>ob. lookup h a = Some ob \<longrightarrow> proto ob = p \<Longrightarrow> setPrototypeOf (Some a) p h = Inr h"
  by (simp add: setPrototypeOf_def split: option.splits)

lemma settable_frame:
  assumes "\<And>b. lookup h' b = lookup h b \<or> lookup h' b = map_option (\<lambda>ob. ob\<lparr>proto := p\<rparr>) (lookup h b)"
  shows "settable p h v \<Longrightarrow> settable p h' v"
proof (cases v)
  case None
  then show "settable p h v \<Longrightarrow> settable p h' v" by (simp add: settable_def)
next
  case (Some a)
  assume s: "settable p h v"
  show "settable p h' v"
  proof (cases "lookup h a")
    case None
    with assms [of a] have "lookup h' a = None" by auto
    then show ?thesis using Some by (simp add: settable_def)
  next
    case ob: (Some ob)
    from assms [of a] ob
    have "lookup h' a = Some ob \<or> lookup h' a = Some (ob\<lparr>proto := p\<rparr>)" by auto
    then show ?thesis using Some s ob by (auto simp: settable_def)
  qed
qed

lemma settable_Some:
  "settable p h (Some a) \<longleftrightarrow> (\<forall>ob. lookup h a = Some ob \<longrightarrow> extensible ob \<or> proto ob = p)"
  by (simp add: settable_def split: option.splits)

lemma settable_iff:
  "settable p h m \<longleftrightarrow> (\<exists>a. m = Some a \<and> (\<forall>ob. lookup h a = Some ob \<longrightarrow> extensible ob \<or> proto ob = p))"
  by (cases m) (simp_all add: settable_def split: option.splits)

lemma not_settable_iff:
  "\<not> settable p h m \<longleftrightarrow>
     m = None \<or> (\<exists>a ob. m = Some a \<and> lookup h a = Some ob \<and> \<not> extensible ob \<and> proto ob \<noteq> p)"
  by (cases m) (auto simp: settable_def split: option.splits)

lemma settable_back:
  assumes s: "setPrototypeOf v p h = Inr h1" and m: "settable p h1 m"
  shows "settable p h m"
proof (cases "m = v")
  case True
  with s show ?thesis using setPrototypeOf_settable by blast
next
  case False
  from m obtain a where a: "m = Some a" by (cases m) (simp_all add: settable_def)
  with False have "lookup h1 a = lookup h a"
    using setPrototypeOf_Inr(2) [OF s, of a] by auto
  with m a show ?thesis by (simp add: settable_def)
qed

subsection \<open>The loop of \<^verbatim>\<open>cryptoKeyRecordOut\<close>\<close>

lemma loop_frame:
  "cryptoKeyRecordOut_loop ms h = (r, h') \<Longrightarrow>
     length h' = length h
   \<and> (\<forall>b. lookup h' b = lookup h b
          \<or> Some b \<in> set ms
            \<and> lookup h' b = map_option (\<lambda>ob. ob\<lparr>proto := PersonIdentifier_prototype\<rparr>) (lookup h b))"
proof (induction ms arbitrary: h)
  case Nil
  then show ?case by simp
next
  case (Cons m ms)
  show ?case
  proof (cases "setPrototypeOf m PersonIdentifier_prototype h")
    case (Inl e)
    with Cons.prems show ?thesis by simp
  next
    case (Inr h1)
    with Cons.prems have l: "cryptoKeyRecordOut_loop ms h1 = (r, h')" by simp
    note ih = Cons.IH [OF l]
    note s = setPrototypeOf_Inr [OF Inr]
    have "lookup h' b = lookup h b
          \<or> Some b \<in> set (m # ms)
            \<and> lookup h' b = map_option (\<lambda>ob. ob\<lparr>proto := PersonIdentifier_prototype\<rparr>) (lookup h b)" for b
    proof -
      from ih have "lookup h' b = lookup h1 b
          \<or> Some b \<in> set ms
            \<and> lookup h' b = map_option (\<lambda>ob. ob\<lparr>proto := PersonIdentifier_prototype\<rparr>) (lookup h1 b)"
        by blast
      with s(2) [of b] show ?thesis
        by (cases "lookup h b") (auto split: if_splits)
    qed
    then show ?thesis using ih s(1) by simp
  qed
qed

lemma loop_done:
  "cryptoKeyRecordOut_loop ms h = (None, h') \<Longrightarrow> Some b \<in> set ms \<Longrightarrow>
     lookup h' b = map_option (\<lambda>ob. ob\<lparr>proto := PersonIdentifier_prototype\<rparr>) (lookup h b)"
proof (induction ms arbitrary: h)
  case Nil
  then show ?case by simp
next
  case (Cons m ms)
  from Cons.prems(1) obtain h1 where s: "setPrototypeOf m PersonIdentifier_prototype h = Inr h1"
    and l: "cryptoKeyRecordOut_loop ms h1 = (None, h')"
    by (cases "setPrototypeOf m PersonIdentifier_prototype h") simp_all
  note f = loop_frame [OF l]
  note s1 = setPrototypeOf_Inr(2) [OF s, of b]
  show ?case
  proof (cases "Some b \<in> set ms")
    case True
    from Cons.IH [OF l True] s1 show ?thesis
      by (cases "lookup h b") (auto split: if_splits)
  next
    case False
    with Cons.prems(2) have m: "m = Some b" by simp
    from f False have "lookup h' b = lookup h1 b" by blast
    with s1 m show ?thesis by simp
  qed
qed

lemma loop_settable:
  "\<forall>m\<in>set ms. settable PersonIdentifier_prototype h m \<Longrightarrow> fst (cryptoKeyRecordOut_loop ms h) = None"
proof (induction ms arbitrary: h)
  case Nil
  then show ?case by simp
next
  case (Cons m ms)
  from Cons.prems have "settable PersonIdentifier_prototype h m" by simp
  then obtain h1 where s: "setPrototypeOf m PersonIdentifier_prototype h = Inr h1"
    using setPrototypeOf_settable by blast
  have "\<forall>m'\<in>set ms. settable PersonIdentifier_prototype h1 m'"
  proof
    fix m' assume "m' \<in> set ms"
    with Cons.prems have "settable PersonIdentifier_prototype h m'" by simp
    then show "settable PersonIdentifier_prototype h1 m'"
      using setPrototypeOf_Inr(2) [OF s] by (intro settable_frame [of h1 h]) auto
  qed
  then have "fst (cryptoKeyRecordOut_loop ms h1) = None" by (rule Cons.IH)
  with s show ?case by simp
qed

lemma loop_error:
  "fst (cryptoKeyRecordOut_loop ms h) = Some e \<Longrightarrow>
     e = TypeError \<and> (\<exists>m\<in>set ms. \<not> settable PersonIdentifier_prototype h m)"
proof (induction ms arbitrary: h)
  case Nil
  then show ?case by simp
next
  case (Cons m ms)
  show ?case
  proof (cases "setPrototypeOf m PersonIdentifier_prototype h")
    case (Inl e')
    with Cons.prems have "e' = e" by simp
    with setPrototypeOf_Inl [OF Inl] show ?thesis by simp
  next
    case (Inr h1)
    with Cons.prems have "fst (cryptoKeyRecordOut_loop ms h1) = Some e" by simp
    from Cons.IH [OF this] obtain m' where e: "e = TypeError" and m': "m' \<in> set ms"
      and n: "\<not> settable PersonIdentifier_prototype h1 m'" by blast
    have "\<not> settable PersonIdentifier_prototype h m'"
    proof
      assume "settable PersonIdentifier_prototype h m'"
      then have "settable PersonIdentifier_prototype h1 m'"
        using setPrototypeOf_Inr(2) [OF Inr] by (intro settable_frame [of h1 h]) auto
      with n show False by simp
    qed
    with e m' show ?thesis by auto
  qed
qed

lemma loop_same:
  "\<forall>m\<in>set ms. \<exists>a. m = Some a \<and> (\<forall>ob. lookup h a = Some ob \<longrightarrow> proto ob = PersonIdentifier_prototype) \<Longrightarrow>
     cryptoKeyRecordOut_loop ms h = (None, h)"
proof (induction ms)
  case Nil
  then show ?case by simp
next
  case (Cons m ms)
  then obtain a where "m = Some a" and "\<forall>ob. lookup h a = Some ob \<longrightarrow> proto ob = PersonIdentifier_prototype"
    by auto
  then have "setPrototypeOf m PersonIdentifier_prototype h = Inr h"
    by (simp add: setPrototypeOf_same)
  with Cons show ?case by simp
qed

lemma loop_none_settable:
  "fst (cryptoKeyRecordOut_loop ms h) = None \<Longrightarrow> \<forall>m\<in>set ms. settable PersonIdentifier_prototype h m"
proof (induction ms arbitrary: h)
  case Nil
  then show ?case by simp
next
  case (Cons m ms)
  from Cons.prems obtain h1 where s: "setPrototypeOf m PersonIdentifier_prototype h = Inr h1"
    and l: "fst (cryptoKeyRecordOut_loop ms h1) = None"
    by (cases "setPrototypeOf m PersonIdentifier_prototype h") simp_all
  from s have "settable PersonIdentifier_prototype h m"
    using setPrototypeOf_settable by blast
  moreover have "\<forall>m'\<in>set ms. settable PersonIdentifier_prototype h m'"
    using Cons.IH [OF l] settable_back [OF s] by blast
  ultimately show ?case by simp
qed

lemma loop_fails:
  assumes "\<exists>m\<in>set ms. \<not> settable PersonIdentifier_prototype h m"
  shows "fst (cryptoKeyRecordOut_loop ms h) = Some TypeError"
proof (cases "fst (cryptoKeyRecordOut_loop ms h)")
  case None
  with loop_none_settable [of ms h] assms show ?thesis by blast
next
  case (Some e)
  with loop_error [of ms h e] show ?thesis by simp
qed

section \<open>What the transcoders write and return\<close>

lemma profileOut_return_heap: "snd (profileOut_return fromString x h) = h"
  by (simp add: profileOut_return_def split: sum.splits)

lemma profileOut_return_linked:
  "fst (profileOut_return fromString x h) = Inr y \<Longrightarrow> ProfileRecord.linkedCryptoID y = ProfileRecord.linkedCryptoID x"
  by (auto simp: profileOut_return_def split: sum.splits)

lemma profileOut_return_Inl:
  "fst (profileOut_return fromString x h) = Inl e \<longleftrightarrow> fromString (ProfileRecord.identifier x) = Inl e"
  by (simp add: profileOut_return_def split: sum.splits)

lemma cryptoKeyRecordOut_return_heap: "snd (cryptoKeyRecordOut_return fromString x h) = h"
  by (simp add: cryptoKeyRecordOut_return_def split: sum.splits)

lemma cryptoKeyRecordOut_return_Inl:
  "fst (cryptoKeyRecordOut_return fromString x h) = Inl e \<longleftrightarrow> fromString (CryptoIDRecord.identifier x) = Inl e"
  by (simp add: cryptoKeyRecordOut_return_def split: sum.splits)

lemma profileOut_cases:
  "ProfileRecord.linkedCryptoID x = None \<and> profileOut fromString x h = profileOut_return fromString x h
   \<or> (\<exists>a. ProfileRecord.linkedCryptoID x = Some a \<and> get_prop h a ''type'' \<noteq> Some ''ec_key''
          \<and> profileOut fromString x h = (Inl (Error ''Unknown type of linkedCryptoID''), h))
   \<or> (\<exists>a. ProfileRecord.linkedCryptoID x = Some a \<and> get_prop h a ''type'' = Some ''ec_key''
          \<and> \<not> settable ECKeyIdentifier_prototype h (Some a)
          \<and> profileOut fromString x h = (Inl TypeError, h))
   \<or> (\<exists>a h'. ProfileRecord.linkedCryptoID x = Some a \<and> get_prop h a ''type'' = Some ''ec_key''
          \<and> setPrototypeOf (Some a) ECKeyIdentifier_prototype h = Inr h'
          \<and> profileOut fromString x h = profileOut_return fromString x h')"
proof (cases "ProfileRecord.linkedCryptoID x")
  case None
  then show ?thesis by (simp add: profileOut_def)
next
  case (Some a)
  show ?thesis
  proof (cases "get_prop h a ''type'' = Some ''ec_key''")
    case False
    with Some show ?thesis by (simp add: profileOut_def)
  next
    case True
    show ?thesis
    proof (cases "setPrototypeOf (Some a) ECKeyIdentifier_prototype h")
      case (Inl e)
      from setPrototypeOf_Inl [OF Inl] Inl Some True show ?thesis
        by (simp add: profileOut_def)
    next
      case (Inr h')
      with Some True show ?thesis by (simp add: profileOut_def)
    qed
  qed
qed

lemma cryptoKeyRecordOut_cases:
  "(\<exists>e h'. cryptoKeyRecordOut_loop (CryptoIDRecord.attachedProfiles x) h = (Some e, h')
        \<and> cryptoKeyRecordOut fromString x h = (Inl e, h'))
   \<or> (\<exists>h'. cryptoKeyRecordOut_loop (CryptoIDRecord.attachedProfiles x) h = (None, h')
        \<and> cryptoKeyRecordOut fromString x h = cryptoKeyRecordOut_return fromString x h')"
proof (cases "cryptoKeyRecordOut_loop (CryptoIDRecord.attachedProfiles x) h")
  case (Pair r h')
  then show ?thesis by (cases r) (simp_all add: cryptoKeyRecordOut_def)
qed

lemma cryptoKeyRecordOut_heap:
  "snd (cryptoKeyRecordOut fromString x h) = snd (cryptoKeyRecordOut_loop (CryptoIDRecord.attachedProfiles x) h)"
  using cryptoKeyRecordOut_cases [of x h fromString]
  by (auto simp: cryptoKeyRecordOut_return_heap)

lemma profileOut_frame:
  "length (snd (profileOut fromString x h)) = length h
   \<and> (\<forall>b. lookup (snd (profileOut fromString x h)) b = lookup h b
          \<or> ProfileRecord.linkedCryptoID x = Some b
            \<and> lookup (snd (profileOut fromString x h)) b
                = map_option (\<lambda>ob. ob\<lparr>proto := ECKeyIdentifier_prototype\<rparr>) (lookup h b))"
  using profileOut_cases [of x fromString h]
proof (elim disjE exE conjE)
  fix a h'
  assume l: "ProfileRecord.linkedCryptoID x = Some a"
    and s: "setPrototypeOf (Some a) ECKeyIdentifier_prototype h = Inr h'"
    and p: "profileOut fromString x h = profileOut_return fromString x h'"
  have h': "snd (profileOut fromString x h) = h'" by (simp add: p profileOut_return_heap)
  show ?thesis
    using setPrototypeOf_Inr [OF s] l by (auto simp: h')
qed (simp_all add: profileOut_return_heap)

lemma cryptoKeyRecordOut_frame:
  "length (snd (cryptoKeyRecordOut fromString x h)) = length h
   \<and> (\<forall>b. lookup (snd (cryptoKeyRecordOut fromString x h)) b = lookup h b
          \<or> Some b \<in> set (CryptoIDRecord.attachedProfiles x)
            \<and> lookup (snd (cryptoKeyRecordOut fromString x h)) b
                = map_option (\<lambda>ob. ob\<lparr>proto := PersonIdentifier_prototype\<rparr>) (lookup h b))"
proof -
  obtain r h' where l: "cryptoKeyRecordOut_loop (CryptoIDRecord.attachedProfiles x) h = (r, h')"
    by (cases "cryptoKeyRecordOut_loop (CryptoIDRecord.attachedProfiles x) h")
  then have "snd (cryptoKeyRecordOut fromString x h) = h'"
    by (simp add: cryptoKeyRecordOut_heap)
  with loop_frame [OF l] show ?thesis by simp
qed

subsection \<open>The codec of the specification\<close>

lemma fromString_toText: "Identifier_fromString (Identifier_toText i) = Inr i"
proof (cases i)
  case (PersonIdentifier s)
  have "takeWhile (\<lambda>c. c \<noteq> CHR '':'') (''person:'' @ s) = ''person''" by simp
  then show ?thesis using PersonIdentifier
    by (simp add: Identifier_fromString_def Let_def)
next
  case (ECKeyIdentifier s)
  have "takeWhile (\<lambda>c. c \<noteq> CHR '':'') (''ec_key:'' @ s) = ''ec_key''" by simp
  then show ?thesis using ECKeyIdentifier
    by (simp add: Identifier_fromString_def Let_def)
qed

lemma fromString_person_alice: "Identifier_fromString ''person:alice'' = Inr (PersonIdentifier ''alice'')"
  by (simp add: Identifier_fromString_def)

lemma fromString_ec_key_ABCD: "Identifier_fromString ''ec_key:0xABCD'' = Inr (ECKeyIdentifier ''0xABCD'')"
  by (simp add: Identifier_fromString_def)

section \<open>The transcoders: claims C1, C3, C4, C9 and C10\<close>

text \<open>
  C9: \<open>profileIn\<close> returns a storage record equal to its input in every field except
  \<^verbatim>\<open>identifier\<close>, which becomes the identifier's canonical string. The nested
  \<^verbatim>\<open>linkedCryptoID\<close> stays the reference to the same object, and the object store is
  returned as it was, so the object keeps its class and is not encoded. Likewise
  \<open>cryptoKeyRecordIn\<close> replaces only \<^verbatim>\<open>identifier\<close> and keeps \<^verbatim>\<open>attachedProfiles\<close>
  and every other field.
\<close>

theorem record_in_replaces_only_identifier: 
  "ProfileRecord.identifier (fst (profileIn toText x h)) = toText (ProfileRecord.identifier x)
   \<and> ProfileRecord.nickname (fst (profileIn toText x h)) = ProfileRecord.nickname x
   \<and> ProfileRecord.localKey (fst (profileIn toText x h)) = ProfileRecord.localKey x
   \<and> ProfileRecord.linkedCryptoID (fst (profileIn toText x h)) = ProfileRecord.linkedCryptoID x
   \<and> ProfileRecord.createdAt (fst (profileIn toText x h)) = ProfileRecord.createdAt x
   \<and> ProfileRecord.updatedAt (fst (profileIn toText x h)) = ProfileRecord.updatedAt x
   \<and> snd (profileIn toText x h) = h
   \<and> CryptoIDRecord.identifier (fst (cryptoKeyRecordIn toText' y h)) = toText' (CryptoIDRecord.identifier y)
   \<and> CryptoIDRecord.publicKey (fst (cryptoKeyRecordIn toText' y h)) = CryptoIDRecord.publicKey y
   \<and> CryptoIDRecord.privateKey (fst (cryptoKeyRecordIn toText' y h)) = CryptoIDRecord.privateKey y
   \<and> CryptoIDRecord.localKey (fst (cryptoKeyRecordIn toText' y h)) = CryptoIDRecord.localKey y
   \<and> CryptoIDRecord.nickname (fst (cryptoKeyRecordIn toText' y h)) = CryptoIDRecord.nickname y
   \<and> CryptoIDRecord.attachedProfiles (fst (cryptoKeyRecordIn toText' y h)) = CryptoIDRecord.attachedProfiles y
   \<and> CryptoIDRecord.createdAt (fst (cryptoKeyRecordIn toText' y h)) = CryptoIDRecord.createdAt y
   \<and> CryptoIDRecord.updatedAt (fst (cryptoKeyRecordIn toText' y h)) = CryptoIDRecord.updatedAt y
   \<and> snd (cryptoKeyRecordIn toText' y h) = h"
  by (simp add: profileIn_def cryptoKeyRecordIn_def)

text \<open>
  C1: decoding the encoding of an identifier gives the identifier back, with its
  variant. Lifted to records, for any codec that gives the record's identifier back:
  \<open>cryptoKeyRecordOut\<close> after \<open>cryptoKeyRecordIn\<close> returns the record and the object
  store unchanged, for a \<^verbatim>\<open>CryptoIDRecord\<close> (the members of \<^verbatim>\<open>attachedProfiles\<close> are
  \<^verbatim>\<open>PersonIdentifier\<close> instances); \<open>profileOut\<close> after \<open>profileIn\<close> returns the
  record and the object store unchanged when \<^verbatim>\<open>linkedCryptoID\<close> is absent or an
  \<^verbatim>\<open>ECKeyIdentifier\<close> instance.
\<close>

theorem transcoders_roundtrip:
  "Identifier_fromString (Identifier_toText i) = Inr i
   \<and> (fromString (toText (CryptoIDRecord.identifier r)) = Inr (CryptoIDRecord.identifier r) \<longrightarrow>
      (\<forall>m\<in>set (CryptoIDRecord.attachedProfiles r).
          \<exists>a. m = Some a \<and> (\<forall>ob. lookup h a = Some ob \<longrightarrow> proto ob = PersonIdentifier_prototype)) \<longrightarrow>
      (case cryptoKeyRecordIn toText r h of (y, h1) \<Rightarrow> cryptoKeyRecordOut fromString y h1) = (Inr r, h))
   \<and> (fromString' (toText' (ProfileRecord.identifier p)) = Inr (ProfileRecord.identifier p) \<longrightarrow>
      (ProfileRecord.linkedCryptoID p = None \<or>
        (\<exists>a ob. ProfileRecord.linkedCryptoID p = Some a \<and> lookup h a = Some ob
           \<and> proto ob = ECKeyIdentifier_prototype \<and> map_of (props ob) ''type'' = Some ''ec_key'')) \<longrightarrow>
      (case profileIn toText' p h of (y, h1) \<Rightarrow> profileOut fromString' y h1) = (Inr p, h))"
proof (intro conjI impI)
  show "Identifier_fromString (Identifier_toText i) = Inr i" by (rule fromString_toText)
next
  assume rt: "fromString (toText (CryptoIDRecord.identifier r)) = Inr (CryptoIDRecord.identifier r)"
    and wt: "\<forall>m\<in>set (CryptoIDRecord.attachedProfiles r).
          \<exists>a. m = Some a \<and> (\<forall>ob. lookup h a = Some ob \<longrightarrow> proto ob = PersonIdentifier_prototype)"
  have "cryptoKeyRecordOut_loop (CryptoIDRecord.attachedProfiles r) h = (None, h)"
    using wt by (rule loop_same)
  then show "(case cryptoKeyRecordIn toText r h of (y, h1) \<Rightarrow> cryptoKeyRecordOut fromString y h1) = (Inr r, h)"
    using rt by (simp add: cryptoKeyRecordIn_def cryptoKeyRecordOut_def cryptoKeyRecordOut_return_def)
next
  assume rt: "fromString' (toText' (ProfileRecord.identifier p)) = Inr (ProfileRecord.identifier p)"
    and wt: "ProfileRecord.linkedCryptoID p = None \<or>
        (\<exists>a ob. ProfileRecord.linkedCryptoID p = Some a \<and> lookup h a = Some ob
           \<and> proto ob = ECKeyIdentifier_prototype \<and> map_of (props ob) ''type'' = Some ''ec_key'')"
  from wt show "(case profileIn toText' p h of (y, h1) \<Rightarrow> profileOut fromString' y h1) = (Inr p, h)"
  proof
    assume "ProfileRecord.linkedCryptoID p = None"
    then show ?thesis using rt
      by (simp add: profileIn_def profileOut_def profileOut_return_def)
  next
    assume "\<exists>a ob. ProfileRecord.linkedCryptoID p = Some a \<and> lookup h a = Some ob
           \<and> proto ob = ECKeyIdentifier_prototype \<and> map_of (props ob) ''type'' = Some ''ec_key''"
    then obtain a ob where l: "ProfileRecord.linkedCryptoID p = Some a" and ob: "lookup h a = Some ob"
      and pr: "proto ob = ECKeyIdentifier_prototype" and ty: "map_of (props ob) ''type'' = Some ''ec_key''"
      by blast
    have "setPrototypeOf (Some a) ECKeyIdentifier_prototype h = Inr h"
      using ob pr by (intro setPrototypeOf_same) simp
    moreover have "get_prop h a ''type'' = Some ''ec_key''"
      using ob ty by (simp add: get_prop_def)
    ultimately show ?thesis using rt l
      by (simp add: profileIn_def profileOut_def profileOut_return_def)
  qed
qed

theorem transcoders_roundtrip_witness:
  "Identifier_fromString (Identifier_toText (ECKeyIdentifier ''0xABCD'')) = Inr (ECKeyIdentifier ''0xABCD'')
   \<and> (case cryptoKeyRecordIn Identifier_toText memory_cryptoID memory_heap of
         (y, h1) \<Rightarrow> cryptoKeyRecordOut Identifier_fromString y h1) = (Inr memory_cryptoID, memory_heap)
   \<and> (case profileIn Identifier_toText memory_profile memory_heap of
         (y, h1) \<Rightarrow> profileOut Identifier_fromString y h1) = (Inr memory_profile, memory_heap)"
proof -
  have a: "\<forall>m\<in>set (CryptoIDRecord.attachedProfiles memory_cryptoID).
      \<exists>a. m = Some a \<and> (\<forall>ob. lookup memory_heap a = Some ob \<longrightarrow> proto ob = PersonIdentifier_prototype)"
    by (simp add: memory_cryptoID_def memory_heap_def lookup_def)
  have l: "\<exists>a ob. ProfileRecord.linkedCryptoID memory_profile = Some a \<and> lookup memory_heap a = Some ob
        \<and> proto ob = ECKeyIdentifier_prototype \<and> map_of (props ob) ''type'' = Some ''ec_key''"
    by (simp add: memory_profile_def memory_heap_def lookup_def)
  show ?thesis
    using transcoders_roundtrip [of "ECKeyIdentifier ''0xABCD''" Identifier_fromString Identifier_toText memory_cryptoID
                memory_heap Identifier_fromString Identifier_toText memory_profile]
          a l fromString_toText
    by blast
qed

text \<open>
  C4: for a stored profile whose \<^verbatim>\<open>linkedCryptoID\<close> is present, \<open>profileOut\<close> gives
  the linked object the prototype of \<^verbatim>\<open>ECKeyIdentifier\<close> when its \<^verbatim>\<open>type\<close> is
  \<^verbatim>\<open>'ec_key'\<close> (a stored object is extensible, so \<^verbatim>\<open>Object.setPrototypeOf\<close> returns),
  and throws \<^verbatim>\<open>Error('Unknown type of linkedCryptoID')\<close>, the decode error of the
  specification, for any other \<^verbatim>\<open>type\<close>, leaving the object store as it was.
  Whenever it returns a record, the linked object of the record has type
  \<^verbatim>\<open>'ec_key'\<close> and the prototype of \<^verbatim>\<open>ECKeyIdentifier\<close>.
\<close>

theorem profileOut_linkedCryptoID:
  assumes "ProfileRecord.linkedCryptoID x = Some a"
  shows "(get_prop h a ''type'' = Some ''ec_key'' \<longrightarrow>
          (\<forall>ob. lookup h a = Some ob \<longrightarrow> extensible ob \<or> proto ob = ECKeyIdentifier_prototype) \<longrightarrow>
            setPrototypeOf (Some a) ECKeyIdentifier_prototype h = Inr (snd (profileOut fromString x h))
          \<and> (\<exists>ob. lookup (snd (profileOut fromString x h)) a = Some ob \<and> proto ob = ECKeyIdentifier_prototype))
       \<and> (get_prop h a ''type'' \<noteq> Some ''ec_key'' \<longrightarrow>
            profileOut fromString x h = (Inl (Error ''Unknown type of linkedCryptoID''), h))
       \<and> (\<forall>y. fst (profileOut fromString x h) = Inr y \<longrightarrow>
            ProfileRecord.linkedCryptoID y = Some a
          \<and> get_prop (snd (profileOut fromString x h)) a ''type'' = Some ''ec_key''
          \<and> (\<exists>ob. lookup (snd (profileOut fromString x h)) a = Some ob \<and> proto ob = ECKeyIdentifier_prototype))"
proof -
  have cls: "proto ob' = ECKeyIdentifier_prototype"
    if s: "setPrototypeOf (Some a) ECKeyIdentifier_prototype h = Inr h'" and l: "lookup h' a = Some ob'"
    for h' ob'
    using setPrototypeOf_Inr(2) [OF s, of a] l by (cases "lookup h a") auto
  have tag: "get_prop h' a n = get_prop h a n"
    if s: "setPrototypeOf (Some a) ECKeyIdentifier_prototype h = Inr h'" for h' n
    using setPrototypeOf_Inr(2) [OF s, of a] by (cases "lookup h a") (auto simp: get_prop_def)
  have ec: "setPrototypeOf (Some a) ECKeyIdentifier_prototype h = Inr (snd (profileOut fromString x h))
      \<and> (\<exists>ob. lookup (snd (profileOut fromString x h)) a = Some ob \<and> proto ob = ECKeyIdentifier_prototype)"
    if t: "get_prop h a ''type'' = Some ''ec_key''"
      and e: "\<forall>ob. lookup h a = Some ob \<longrightarrow> extensible ob \<or> proto ob = ECKeyIdentifier_prototype"
  proof -
    from e have "settable ECKeyIdentifier_prototype h (Some a)" by (simp add: settable_Some)
    then obtain h' where s: "setPrototypeOf (Some a) ECKeyIdentifier_prototype h = Inr h'"
      using setPrototypeOf_settable by blast
    then have h': "snd (profileOut fromString x h) = h'"
      using assms t by (simp add: profileOut_def profileOut_return_heap)
    from t obtain ob where "lookup h a = Some ob"
      by (auto simp: get_prop_def split: option.splits)
    then obtain ob' where ob': "lookup h' a = Some ob'"
      using setPrototypeOf_Inr(2) [OF s, of a] by auto
    with cls [OF s] s h' show ?thesis by auto
  qed
  have other: "profileOut fromString x h = (Inl (Error ''Unknown type of linkedCryptoID''), h)"
    if "get_prop h a ''type'' \<noteq> Some ''ec_key''"
    using assms that by (simp add: profileOut_def)
  have ret: "ProfileRecord.linkedCryptoID y = Some a
      \<and> get_prop (snd (profileOut fromString x h)) a ''type'' = Some ''ec_key''
      \<and> (\<exists>ob. lookup (snd (profileOut fromString x h)) a = Some ob \<and> proto ob = ECKeyIdentifier_prototype)"
    if y: "fst (profileOut fromString x h) = Inr y" for y
  proof -
    from profileOut_cases [of x fromString h] assms y
    obtain h' where t: "get_prop h a ''type'' = Some ''ec_key''"
      and s: "setPrototypeOf (Some a) ECKeyIdentifier_prototype h = Inr h'"
      and p: "profileOut fromString x h = profileOut_return fromString x h'"
      by auto
    have h': "snd (profileOut fromString x h) = h'" by (simp add: p profileOut_return_heap)
    have l: "ProfileRecord.linkedCryptoID y = Some a"
      using y p assms profileOut_return_linked [of fromString x h' y] by simp
    from t obtain ob where "lookup h a = Some ob"
      by (auto simp: get_prop_def split: option.splits)
    then obtain ob' where ob': "lookup h' a = Some ob'"
      using setPrototypeOf_Inr(2) [OF s, of a] by auto
    with cls [OF s] tag [OF s] t l h' show ?thesis by auto
  qed
  show ?thesis
  proof (intro conjI impI allI)
    assume "get_prop h a ''type'' = Some ''ec_key''"
      and "\<forall>ob. lookup h a = Some ob \<longrightarrow> extensible ob \<or> proto ob = ECKeyIdentifier_prototype"
    then show "setPrototypeOf (Some a) ECKeyIdentifier_prototype h = Inr (snd (profileOut fromString x h))"
      and "\<exists>ob. lookup (snd (profileOut fromString x h)) a = Some ob \<and> proto ob = ECKeyIdentifier_prototype"
      using ec by blast+
  next
    assume "get_prop h a ''type'' \<noteq> Some ''ec_key''"
    then show "profileOut fromString x h = (Inl (Error ''Unknown type of linkedCryptoID''), h)"
      by (rule other)
  next
    fix y assume "fst (profileOut fromString x h) = Inr y"
    from ret [OF this]
    show "ProfileRecord.linkedCryptoID y = Some a"
      and "get_prop (snd (profileOut fromString x h)) a ''type'' = Some ''ec_key''"
      and "\<exists>ob. lookup (snd (profileOut fromString x h)) a = Some ob \<and> proto ob = ECKeyIdentifier_prototype"
      by blast+
  qed
qed

theorem profileOut_linkedCryptoID_witness:
  "ProfileRecord.linkedCryptoID example_profile = Some 0
   \<and> get_prop example_heap 0 ''type'' = Some ''ec_key''
   \<and> lookup (snd (profileOut Identifier_fromString example_profile example_heap)) 0
       = Some \<lparr> proto = ECKeyIdentifier_prototype, props = [(''type'', ''ec_key''), (''key'', ''0xABCD'')],
                extensible = True \<rparr>
   \<and> get_prop example_heap 1 ''type'' \<noteq> Some ''ec_key''
   \<and> profileOut Identifier_fromString (example_profile\<lparr>ProfileRecord.linkedCryptoID := Some 1\<rparr>) example_heap
       = (Inl (Error ''Unknown type of linkedCryptoID''), example_heap)"
proof -
  have l0: "ProfileRecord.linkedCryptoID example_profile = Some 0"
    by (simp add: example_profile_def)
  have l1: "ProfileRecord.linkedCryptoID (example_profile\<lparr>ProfileRecord.linkedCryptoID := Some 1\<rparr>) = Some 1"
    by simp
  have t0: "get_prop example_heap 0 ''type'' = Some ''ec_key''"
    by (simp add: get_prop_def lookup_def example_heap_def)
  have t1: "get_prop example_heap 1 ''type'' \<noteq> Some ''ec_key''"
    by (simp add: get_prop_def lookup_def example_heap_def)
  have e0: "\<forall>ob. lookup example_heap 0 = Some ob \<longrightarrow> extensible ob \<or> proto ob = ECKeyIdentifier_prototype"
    by (simp add: lookup_def example_heap_def)
  from profileOut_linkedCryptoID [OF l0, of example_heap Identifier_fromString] t0 e0
  have a: "setPrototypeOf (Some 0) ECKeyIdentifier_prototype example_heap
      = Inr (snd (profileOut Identifier_fromString example_profile example_heap))"
    by blast
  have b: "setPrototypeOf (Some 0) ECKeyIdentifier_prototype example_heap
      = Inr [\<lparr> proto = ECKeyIdentifier_prototype, props = [(''type'', ''ec_key''), (''key'', ''0xABCD'')],
                extensible = True \<rparr>, example_heap ! 1]"
    by (simp add: setPrototypeOf_def lookup_def example_heap_def)
  from a b have eq: "snd (profileOut Identifier_fromString example_profile example_heap)
      = [\<lparr> proto = ECKeyIdentifier_prototype, props = [(''type'', ''ec_key''), (''key'', ''0xABCD'')],
                extensible = True \<rparr>, example_heap ! 1]"
    by simp
  have ab: "lookup (snd (profileOut Identifier_fromString example_profile example_heap)) 0
       = Some \<lparr> proto = ECKeyIdentifier_prototype, props = [(''type'', ''ec_key''), (''key'', ''0xABCD'')],
                extensible = True \<rparr>"
    by (simp add: eq lookup_def)
  from profileOut_linkedCryptoID [OF l1, of example_heap Identifier_fromString] t1
  have c: "profileOut Identifier_fromString (example_profile\<lparr>ProfileRecord.linkedCryptoID := Some 1\<rparr>) example_heap
      = (Inl (Error ''Unknown type of linkedCryptoID''), example_heap)"
    by blast
  show ?thesis using l0 t0 t1 ab c by simp
qed

text \<open>
  C10, as the claim states it, fails: \<^verbatim>\<open>Object.setPrototypeOf\<close> throws too. On a
  profile whose \<^verbatim>\<open>linkedCryptoID\<close> has type \<^verbatim>\<open>'ec_key'\<close> but is a frozen plain object,
  \<open>profileOut\<close> throws \<open>TypeError\<close> although \<open>fromString\<close> returns; so does
  \<open>cryptoKeyRecordOut\<close> on a CryptoID with a frozen plain member, and on one with a
  \<^verbatim>\<open>null\<close> member.
\<close>

theorem record_out_setPrototypeOf_throws:
  "Identifier_fromString (ProfileRecord.identifier example_profile) = Inr (PersonIdentifier ''alice'')
   \<and> ProfileRecord.linkedCryptoID example_profile = Some 0
   \<and> get_prop frozen_heap 0 ''type'' = Some ''ec_key''
   \<and> profileOut Identifier_fromString example_profile frozen_heap = (Inl TypeError, frozen_heap)
   \<and> Identifier_fromString (CryptoIDRecord.identifier example_cryptoID) = Inr (ECKeyIdentifier ''0xABCD'')
   \<and> cryptoKeyRecordOut Identifier_fromString example_cryptoID frozen_heap = (Inl TypeError, frozen_heap)
   \<and> cryptoKeyRecordOut Identifier_fromString
         (example_cryptoID\<lparr>CryptoIDRecord.attachedProfiles := [None]\<rparr>) example_heap
       = (Inl TypeError, example_heap)"
  by (simp add: profileOut_def cryptoKeyRecordOut_def setPrototypeOf_def get_prop_def lookup_def
        example_profile_def example_cryptoID_def frozen_heap_def
        fromString_person_alice fromString_ec_key_ABCD)

text \<open>
  C10, amended: when \<open>fromString\<close> returns, \<open>profileOut\<close> returns a record for every
  input whose \<^verbatim>\<open>linkedCryptoID\<close> is absent, or has type \<^verbatim>\<open>'ec_key'\<close> and is extensible
  or an \<^verbatim>\<open>ECKeyIdentifier\<close> already. It throws only
  \<^verbatim>\<open>Error('Unknown type of linkedCryptoID')\<close> (type present and not \<^verbatim>\<open>'ec_key'\<close>),
  \<open>TypeError\<close> (type \<^verbatim>\<open>'ec_key'\<close> on an object that is not extensible and has another
  prototype), or what \<open>fromString\<close> throws. When \<open>fromString\<close> returns,
  \<open>cryptoKeyRecordOut\<close> returns a record for every input whose members of
  \<^verbatim>\<open>attachedProfiles\<close> are neither \<^verbatim>\<open>null\<close> nor \<^verbatim>\<open>undefined\<close> and, where objects,
  extensible or \<^verbatim>\<open>PersonIdentifier\<close>s already. It throws only \<open>TypeError\<close> (a member
  that is \<^verbatim>\<open>null\<close>, \<^verbatim>\<open>undefined\<close>, or an object that is not extensible and has
  another prototype) or what \<open>fromString\<close> throws.
\<close>

theorem record_out_returns_or_throws:
  "(fromString (ProfileRecord.identifier x) = Inr i \<longrightarrow>
      (ProfileRecord.linkedCryptoID x = None
        \<or> (\<exists>a. ProfileRecord.linkedCryptoID x = Some a \<and> get_prop h a ''type'' = Some ''ec_key''
               \<and> (\<forall>ob. lookup h a = Some ob \<longrightarrow> extensible ob \<or> proto ob = ECKeyIdentifier_prototype))) \<longrightarrow>
      (\<exists>y. fst (profileOut fromString x h) = Inr y))
   \<and> (fst (profileOut fromString x h) = Inl e \<longrightarrow>
        (\<exists>a. ProfileRecord.linkedCryptoID x = Some a \<and> get_prop h a ''type'' \<noteq> Some ''ec_key''
              \<and> e = Error ''Unknown type of linkedCryptoID'')
        \<or> (\<exists>a ob. ProfileRecord.linkedCryptoID x = Some a \<and> get_prop h a ''type'' = Some ''ec_key''
              \<and> lookup h a = Some ob \<and> \<not> extensible ob \<and> proto ob \<noteq> ECKeyIdentifier_prototype
              \<and> e = TypeError)
        \<or> fromString (ProfileRecord.identifier x) = Inl e)
   \<and> (fromString' (CryptoIDRecord.identifier c) = Inr j \<longrightarrow>
        (\<forall>m\<in>set (CryptoIDRecord.attachedProfiles c).
            \<exists>a. m = Some a
              \<and> (\<forall>ob. lookup h a = Some ob \<longrightarrow> extensible ob \<or> proto ob = PersonIdentifier_prototype)) \<longrightarrow>
        (\<exists>y. fst (cryptoKeyRecordOut fromString' c h) = Inr y))
   \<and> (fst (cryptoKeyRecordOut fromString' c h) = Inl e' \<longrightarrow>
        e' = TypeError
          \<and> (\<exists>m\<in>set (CryptoIDRecord.attachedProfiles c).
                m = None
              \<or> (\<exists>a ob. m = Some a \<and> lookup h a = Some ob \<and> \<not> extensible ob
                    \<and> proto ob \<noteq> PersonIdentifier_prototype))
        \<or> fromString' (CryptoIDRecord.identifier c) = Inl e')"
proof (intro conjI impI)
  assume f: "fromString (ProfileRecord.identifier x) = Inr i"
    and l: "ProfileRecord.linkedCryptoID x = None
        \<or> (\<exists>a. ProfileRecord.linkedCryptoID x = Some a \<and> get_prop h a ''type'' = Some ''ec_key''
               \<and> (\<forall>ob. lookup h a = Some ob \<longrightarrow> extensible ob \<or> proto ob = ECKeyIdentifier_prototype))"
  have r: "\<exists>y. fst (profileOut_return fromString x h') = Inr y" for h'
    using f by (simp add: profileOut_return_def)
  from profileOut_cases [of x fromString h] l show "\<exists>y. fst (profileOut fromString x h) = Inr y"
    using r by (auto simp: settable_Some)
next
  assume e: "fst (profileOut fromString x h) = Inl e"
  from profileOut_cases [of x fromString h] e
  show "(\<exists>a. ProfileRecord.linkedCryptoID x = Some a \<and> get_prop h a ''type'' \<noteq> Some ''ec_key''
              \<and> e = Error ''Unknown type of linkedCryptoID'')
        \<or> (\<exists>a ob. ProfileRecord.linkedCryptoID x = Some a \<and> get_prop h a ''type'' = Some ''ec_key''
              \<and> lookup h a = Some ob \<and> \<not> extensible ob \<and> proto ob \<noteq> ECKeyIdentifier_prototype
              \<and> e = TypeError)
        \<or> fromString (ProfileRecord.identifier x) = Inl e"
    by (auto simp: profileOut_return_Inl not_settable_iff)
next
  assume f: "fromString' (CryptoIDRecord.identifier c) = Inr j"
    and m: "\<forall>m\<in>set (CryptoIDRecord.attachedProfiles c).
            \<exists>a. m = Some a
              \<and> (\<forall>ob. lookup h a = Some ob \<longrightarrow> extensible ob \<or> proto ob = PersonIdentifier_prototype)"
  from m have "fst (cryptoKeyRecordOut_loop (CryptoIDRecord.attachedProfiles c) h) = None"
    by (intro loop_settable) (simp add: settable_iff)
  with cryptoKeyRecordOut_cases [of c h fromString'] f
  show "\<exists>y. fst (cryptoKeyRecordOut fromString' c h) = Inr y"
    by (auto simp: cryptoKeyRecordOut_return_def)
next
  assume e: "fst (cryptoKeyRecordOut fromString' c h) = Inl e'"
  from cryptoKeyRecordOut_cases [of c h fromString']
  show "e' = TypeError
          \<and> (\<exists>m\<in>set (CryptoIDRecord.attachedProfiles c).
                m = None
              \<or> (\<exists>a ob. m = Some a \<and> lookup h a = Some ob \<and> \<not> extensible ob
                    \<and> proto ob \<noteq> PersonIdentifier_prototype))
        \<or> fromString' (CryptoIDRecord.identifier c) = Inl e'"
  proof (elim disjE exE conjE)
    fix e1 h'
    assume l: "cryptoKeyRecordOut_loop (CryptoIDRecord.attachedProfiles c) h = (Some e1, h')"
      and "cryptoKeyRecordOut fromString' c h = (Inl e1, h')"
    with e have "e1 = e'" by simp
    with loop_error [of "CryptoIDRecord.attachedProfiles c" h e'] l
    show ?thesis by (simp add: not_settable_iff)
  next
    fix h'
    assume "cryptoKeyRecordOut fromString' c h = cryptoKeyRecordOut_return fromString' c h'"
    with e show ?thesis by (simp add: cryptoKeyRecordOut_return_Inl)
  qed
qed

theorem record_out_returns_or_throws_witness:
  "Identifier_fromString (ProfileRecord.identifier example_profile) = Inr (PersonIdentifier ''alice'')
   \<and> ProfileRecord.linkedCryptoID example_profile = Some 0
   \<and> get_prop example_heap 0 ''type'' = Some ''ec_key''
   \<and> (\<exists>y. fst (profileOut Identifier_fromString example_profile example_heap) = Inr y)
   \<and> Identifier_fromString (CryptoIDRecord.identifier example_cryptoID) = Inr (ECKeyIdentifier ''0xABCD'')
   \<and> (\<exists>y. fst (cryptoKeyRecordOut Identifier_fromString example_cryptoID example_heap) = Inr y)"
proof -
  have p: "Identifier_fromString (ProfileRecord.identifier example_profile) = Inr (PersonIdentifier ''alice'')"
    by (simp add: example_profile_def fromString_person_alice)
  have k: "Identifier_fromString (CryptoIDRecord.identifier example_cryptoID) = Inr (ECKeyIdentifier ''0xABCD'')"
    by (simp add: example_cryptoID_def fromString_ec_key_ABCD)
  have l0: "ProfileRecord.linkedCryptoID example_profile = Some 0"
    by (simp add: example_profile_def)
  have t0: "get_prop example_heap 0 ''type'' = Some ''ec_key''"
    by (simp add: get_prop_def lookup_def example_heap_def)
  have e0: "\<forall>ob. lookup example_heap 0 = Some ob \<longrightarrow> extensible ob \<or> proto ob = ECKeyIdentifier_prototype"
    by (simp add: lookup_def example_heap_def)
  have m: "\<forall>m\<in>set (CryptoIDRecord.attachedProfiles example_cryptoID).
            \<exists>a. m = Some a
              \<and> (\<forall>ob. lookup example_heap a = Some ob \<longrightarrow> extensible ob \<or> proto ob = PersonIdentifier_prototype)"
    by (simp add: example_cryptoID_def lookup_def example_heap_def)
  note t = record_out_returns_or_throws [of Identifier_fromString example_profile "PersonIdentifier ''alice''" example_heap
                 _ Identifier_fromString example_cryptoID "ECKeyIdentifier ''0xABCD''"]
  have a: "\<exists>y. fst (profileOut Identifier_fromString example_profile example_heap) = Inr y"
    using t [THEN conjunct1, rule_format, OF p] l0 t0 e0 by blast
  have b: "\<exists>y. fst (cryptoKeyRecordOut Identifier_fromString example_cryptoID example_heap) = Inr y"
    using t [THEN conjunct2, THEN conjunct2, THEN conjunct1, THEN mp, OF k, THEN mp, OF m] .
  show ?thesis using p k l0 t0 a b by simp
qed

text \<open>
  C3, as the claim states it, fails: \<open>profileOut\<close> and \<open>cryptoKeyRecordOut\<close> write to
  the objects nested in their input. On the stored example profile the linked object
  at address 0 differs after \<open>profileOut\<close>, and on the stored example CryptoID the
  attached profile at address 1 differs after \<open>cryptoKeyRecordOut\<close>.
\<close>

theorem record_out_writes_nested_objects:
  "lookup (snd (profileOut Identifier_fromString example_profile example_heap)) 0 \<noteq> lookup example_heap 0
   \<and> lookup (snd (cryptoKeyRecordOut Identifier_fromString example_cryptoID example_heap)) 1
       \<noteq> lookup example_heap 1"
  by (simp add: profileOut_def profileOut_return_heap cryptoKeyRecordOut_def cryptoKeyRecordOut_return_heap
        get_prop_def lookup_def setPrototypeOf_def example_profile_def example_cryptoID_def example_heap_def)

text \<open>
  C3, amended: \<open>profileIn\<close> and \<open>cryptoKeyRecordIn\<close> return the object store as it
  was. \<open>profileOut\<close> and \<open>cryptoKeyRecordOut\<close> write to the objects nested in their
  input, in place:
  \<^item> \<open>profileOut\<close> gives a \<^verbatim>\<open>linkedCryptoID\<close> of type \<^verbatim>\<open>'ec_key'\<close> that is
    extensible (or an \<^verbatim>\<open>ECKeyIdentifier\<close> already) the prototype of
    \<^verbatim>\<open>ECKeyIdentifier\<close>;
  \<^item> \<open>cryptoKeyRecordOut\<close>, when every member of \<^verbatim>\<open>attachedProfiles\<close> is an
    extensible object (or a \<^verbatim>\<open>PersonIdentifier\<close> already), gives every member the
    prototype of \<^verbatim>\<open>PersonIdentifier\<close>;
  \<^item> in every case they create and remove no object, and an object that differs
    afterwards is that \<^verbatim>\<open>linkedCryptoID\<close>, respectively a member of
    \<^verbatim>\<open>attachedProfiles\<close>, and differs in its prototype only.

  Failures reach the caller: a \<^verbatim>\<open>linkedCryptoID\<close> of another type makes \<open>profileOut\<close>
  throw \<^verbatim>\<open>Error('Unknown type of linkedCryptoID')\<close> with nothing written; a
  \<^verbatim>\<open>linkedCryptoID\<close> of type \<^verbatim>\<open>'ec_key'\<close> that is not extensible and has another
  prototype makes it throw \<open>TypeError\<close> with nothing written; a member that is
  \<^verbatim>\<open>null\<close>, \<^verbatim>\<open>undefined\<close> or not extensible with another prototype makes
  \<open>cryptoKeyRecordOut\<close> throw \<open>TypeError\<close>; and when \<open>fromString\<close> throws, so does
  the transcoder.
\<close>

theorem transcoders_frame:
  "snd (profileIn toText x h) = h
   \<and> snd (cryptoKeyRecordIn toText' c h) = h
   \<and> length (snd (profileOut fromString y h)) = length h
   \<and> (\<forall>b. lookup (snd (profileOut fromString y h)) b = lookup h b
          \<or> ProfileRecord.linkedCryptoID y = Some b
            \<and> lookup (snd (profileOut fromString y h)) b
                = map_option (\<lambda>ob. ob\<lparr>proto := ECKeyIdentifier_prototype\<rparr>) (lookup h b))
   \<and> (\<forall>a ob. ProfileRecord.linkedCryptoID y = Some a \<longrightarrow> get_prop h a ''type'' = Some ''ec_key'' \<longrightarrow>
          lookup h a = Some ob \<longrightarrow> extensible ob \<or> proto ob = ECKeyIdentifier_prototype \<longrightarrow>
          lookup (snd (profileOut fromString y h)) a = Some (ob\<lparr>proto := ECKeyIdentifier_prototype\<rparr>))
   \<and> (\<forall>a. ProfileRecord.linkedCryptoID y = Some a \<longrightarrow> get_prop h a ''type'' \<noteq> Some ''ec_key'' \<longrightarrow>
          profileOut fromString y h = (Inl (Error ''Unknown type of linkedCryptoID''), h))
   \<and> (\<forall>a ob. ProfileRecord.linkedCryptoID y = Some a \<longrightarrow> get_prop h a ''type'' = Some ''ec_key'' \<longrightarrow>
          lookup h a = Some ob \<longrightarrow> \<not> extensible ob \<longrightarrow> proto ob \<noteq> ECKeyIdentifier_prototype \<longrightarrow>
          profileOut fromString y h = (Inl TypeError, h))
   \<and> (fromString (ProfileRecord.identifier y) = Inl e \<longrightarrow> (\<exists>e'. fst (profileOut fromString y h) = Inl e'))
   \<and> length (snd (cryptoKeyRecordOut fromString' d h)) = length h
   \<and> (\<forall>b. lookup (snd (cryptoKeyRecordOut fromString' d h)) b = lookup h b
          \<or> Some b \<in> set (CryptoIDRecord.attachedProfiles d)
            \<and> lookup (snd (cryptoKeyRecordOut fromString' d h)) b
                = map_option (\<lambda>ob. ob\<lparr>proto := PersonIdentifier_prototype\<rparr>) (lookup h b))
   \<and> ((\<forall>m\<in>set (CryptoIDRecord.attachedProfiles d).
          \<exists>a. m = Some a
            \<and> (\<forall>ob. lookup h a = Some ob \<longrightarrow> extensible ob \<or> proto ob = PersonIdentifier_prototype)) \<longrightarrow>
        (\<forall>b. Some b \<in> set (CryptoIDRecord.attachedProfiles d) \<longrightarrow>
           lookup (snd (cryptoKeyRecordOut fromString' d h)) b
             = map_option (\<lambda>ob. ob\<lparr>proto := PersonIdentifier_prototype\<rparr>) (lookup h b)))
   \<and> ((\<exists>m\<in>set (CryptoIDRecord.attachedProfiles d).
          m = None
        \<or> (\<exists>a ob. m = Some a \<and> lookup h a = Some ob \<and> \<not> extensible ob
              \<and> proto ob \<noteq> PersonIdentifier_prototype)) \<longrightarrow>
        fst (cryptoKeyRecordOut fromString' d h) = Inl TypeError)
   \<and> (fromString' (CryptoIDRecord.identifier d) = Inl e \<longrightarrow>
        (\<exists>e'. fst (cryptoKeyRecordOut fromString' d h) = Inl e'))"
proof -
  have in1: "snd (profileIn toText x h) = h" by (simp add: profileIn_def)
  have in2: "snd (cryptoKeyRecordIn toText' c h) = h" by (simp add: cryptoKeyRecordIn_def)
  note pf = profileOut_frame [of fromString y h]
  note cf = cryptoKeyRecordOut_frame [of fromString' d h]
  have p3: "lookup (snd (profileOut fromString y h)) a = Some (ob\<lparr>proto := ECKeyIdentifier_prototype\<rparr>)"
    if l: "ProfileRecord.linkedCryptoID y = Some a" and t: "get_prop h a ''type'' = Some ''ec_key''"
      and ob: "lookup h a = Some ob" and e: "extensible ob \<or> proto ob = ECKeyIdentifier_prototype"
    for a ob
  proof -
    from ob e have "settable ECKeyIdentifier_prototype h (Some a)" by (simp add: settable_Some)
    then obtain h' where s: "setPrototypeOf (Some a) ECKeyIdentifier_prototype h = Inr h'"
      using setPrototypeOf_settable by blast
    then have "snd (profileOut fromString y h) = h'"
      using l t by (simp add: profileOut_def profileOut_return_heap)
    with setPrototypeOf_Inr(2) [OF s, of a] ob show ?thesis by simp
  qed
  have p4: "profileOut fromString y h = (Inl (Error ''Unknown type of linkedCryptoID''), h)"
    if "ProfileRecord.linkedCryptoID y = Some a" "get_prop h a ''type'' \<noteq> Some ''ec_key''" for a
    using that by (simp add: profileOut_def)
  have p5: "profileOut fromString y h = (Inl TypeError, h)"
    if "ProfileRecord.linkedCryptoID y = Some a" "get_prop h a ''type'' = Some ''ec_key''"
      "lookup h a = Some ob" "\<not> extensible ob" "proto ob \<noteq> ECKeyIdentifier_prototype" for a ob
    using that by (simp add: profileOut_def setPrototypeOf_def)
  have p6: "\<exists>e'. fst (profileOut fromString y h) = Inl e'"
    if "fromString (ProfileRecord.identifier y) = Inl e"
    using profileOut_cases [of y fromString h] that
    by (auto simp: profileOut_return_Inl)
  have c3: "lookup (snd (cryptoKeyRecordOut fromString' d h)) b
             = map_option (\<lambda>ob. ob\<lparr>proto := PersonIdentifier_prototype\<rparr>) (lookup h b)"
    if m: "\<forall>m\<in>set (CryptoIDRecord.attachedProfiles d).
          \<exists>a. m = Some a
            \<and> (\<forall>ob. lookup h a = Some ob \<longrightarrow> extensible ob \<or> proto ob = PersonIdentifier_prototype)"
      and b: "Some b \<in> set (CryptoIDRecord.attachedProfiles d)" for b
  proof -
    from m have "fst (cryptoKeyRecordOut_loop (CryptoIDRecord.attachedProfiles d) h) = None"
      by (intro loop_settable) (simp add: settable_iff)
    then obtain h' where l: "cryptoKeyRecordOut_loop (CryptoIDRecord.attachedProfiles d) h = (None, h')"
      by (cases "cryptoKeyRecordOut_loop (CryptoIDRecord.attachedProfiles d) h") simp
    then have "snd (cryptoKeyRecordOut fromString' d h) = h'"
      by (simp add: cryptoKeyRecordOut_heap)
    with loop_done [OF l b] show ?thesis by simp
  qed
  have c4: "fst (cryptoKeyRecordOut fromString' d h) = Inl TypeError"
    if "\<exists>m\<in>set (CryptoIDRecord.attachedProfiles d).
          m = None
        \<or> (\<exists>a ob. m = Some a \<and> lookup h a = Some ob \<and> \<not> extensible ob
              \<and> proto ob \<noteq> PersonIdentifier_prototype)"
  proof -
    from that have "\<exists>m\<in>set (CryptoIDRecord.attachedProfiles d). \<not> settable PersonIdentifier_prototype h m"
      by (simp add: not_settable_iff)
    then have "fst (cryptoKeyRecordOut_loop (CryptoIDRecord.attachedProfiles d) h) = Some TypeError"
      by (rule loop_fails)
    with cryptoKeyRecordOut_cases [of d h fromString'] show ?thesis by auto
  qed
  have c5: "\<exists>e'. fst (cryptoKeyRecordOut fromString' d h) = Inl e'"
    if "fromString' (CryptoIDRecord.identifier d) = Inl e"
    using cryptoKeyRecordOut_cases [of d h fromString'] that
    by (auto simp: cryptoKeyRecordOut_return_Inl)
  show ?thesis
    by (intro conjI allI impI)
       (simp_all add: in1 in2 pf [THEN conjunct1] pf [THEN conjunct2, rule_format]
          cf [THEN conjunct1] cf [THEN conjunct2, rule_format] p3 p4 p5 p6 c3 c4 c5)
qed

theorem transcoders_frame_witness:
  "ProfileRecord.linkedCryptoID example_profile = Some 0
   \<and> get_prop example_heap 0 ''type'' = Some ''ec_key''
   \<and> lookup (snd (profileOut Identifier_fromString example_profile example_heap)) 0
       = Some ((example_heap ! 0)\<lparr>proto := ECKeyIdentifier_prototype\<rparr>)
   \<and> lookup (snd (cryptoKeyRecordOut Identifier_fromString example_cryptoID example_heap)) 1
       = Some ((example_heap ! 1)\<lparr>proto := PersonIdentifier_prototype\<rparr>)
   \<and> profileOut Identifier_fromString example_profile frozen_heap = (Inl TypeError, frozen_heap)
   \<and> profileOut Identifier_fromString (example_profile\<lparr>ProfileRecord.linkedCryptoID := Some 1\<rparr>) example_heap
       = (Inl (Error ''Unknown type of linkedCryptoID''), example_heap)
   \<and> fst (cryptoKeyRecordOut Identifier_fromString
             (example_cryptoID\<lparr>CryptoIDRecord.attachedProfiles := [None]\<rparr>) example_heap) = Inl TypeError"
proof -
  have l0: "ProfileRecord.linkedCryptoID example_profile = Some 0"
    by (simp add: example_profile_def)
  have l1: "ProfileRecord.linkedCryptoID (example_profile\<lparr>ProfileRecord.linkedCryptoID := Some 1\<rparr>) = Some 1"
    by simp
  have t0: "get_prop example_heap 0 ''type'' = Some ''ec_key''"
    by (simp add: get_prop_def lookup_def example_heap_def)
  have t1: "get_prop example_heap 1 ''type'' \<noteq> Some ''ec_key''"
    by (simp add: get_prop_def lookup_def example_heap_def)
  have o0: "lookup example_heap 0 = Some (example_heap ! 0)"
    and o1: "lookup example_heap 1 = Some (example_heap ! 1)"
    by (simp_all add: lookup_def example_heap_def)
  have e0: "extensible (example_heap ! 0) \<or> proto (example_heap ! 0) = ECKeyIdentifier_prototype"
    by (simp add: example_heap_def)
  have tf: "get_prop frozen_heap 0 ''type'' = Some ''ec_key''"
    by (simp add: get_prop_def lookup_def frozen_heap_def)
  have f0: "lookup frozen_heap 0 = Some (frozen_heap ! 0)"
    by (simp add: lookup_def frozen_heap_def)
  have nf: "\<not> extensible (frozen_heap ! 0)" and pf: "proto (frozen_heap ! 0) \<noteq> ECKeyIdentifier_prototype"
    by (simp_all add: frozen_heap_def)
  have m: "\<forall>m\<in>set (CryptoIDRecord.attachedProfiles example_cryptoID).
          \<exists>a. m = Some a
            \<and> (\<forall>ob. lookup example_heap a = Some ob \<longrightarrow> extensible ob \<or> proto ob = PersonIdentifier_prototype)"
    by (simp add: example_cryptoID_def lookup_def example_heap_def)
  have m1: "Some 1 \<in> set (CryptoIDRecord.attachedProfiles example_cryptoID)"
    by (simp add: example_cryptoID_def)
  have n: "\<exists>m\<in>set (CryptoIDRecord.attachedProfiles (example_cryptoID\<lparr>CryptoIDRecord.attachedProfiles := [None]\<rparr>)).
          m = None
        \<or> (\<exists>a ob. m = Some a \<and> lookup example_heap a = Some ob \<and> \<not> extensible ob
              \<and> proto ob \<noteq> PersonIdentifier_prototype)"
    by simp
  note t = transcoders_frame [where h = example_heap and fromString = Identifier_fromString and y = example_profile
                 and fromString' = Identifier_fromString and d = example_cryptoID]
  have a: "lookup (snd (profileOut Identifier_fromString example_profile example_heap)) 0
       = Some ((example_heap ! 0)\<lparr>proto := ECKeyIdentifier_prototype\<rparr>)"
    using t [THEN conjunct2, THEN conjunct2, THEN conjunct2, THEN conjunct2, THEN conjunct1,
             rule_format, OF l0 t0 o0 e0] .
  have "lookup (snd (cryptoKeyRecordOut Identifier_fromString example_cryptoID example_heap)) 1
       = map_option (\<lambda>ob. ob\<lparr>proto := PersonIdentifier_prototype\<rparr>) (lookup example_heap 1)"
    using t [THEN conjunct2, THEN conjunct2, THEN conjunct2, THEN conjunct2, THEN conjunct2,
             THEN conjunct2, THEN conjunct2, THEN conjunct2, THEN conjunct2, THEN conjunct2,
             THEN conjunct1, THEN mp, OF m, rule_format, OF m1] .
  then have b: "lookup (snd (cryptoKeyRecordOut Identifier_fromString example_cryptoID example_heap)) 1
       = Some ((example_heap ! 1)\<lparr>proto := PersonIdentifier_prototype\<rparr>)"
    using o1 by simp
  have c: "profileOut Identifier_fromString example_profile frozen_heap = (Inl TypeError, frozen_heap)"
    using transcoders_frame [where h = frozen_heap and fromString = Identifier_fromString and y = example_profile,
              THEN conjunct2, THEN conjunct2, THEN conjunct2, THEN conjunct2, THEN conjunct2,
              THEN conjunct2, THEN conjunct1, rule_format, OF l0 tf f0 nf pf] .
  have d: "profileOut Identifier_fromString (example_profile\<lparr>ProfileRecord.linkedCryptoID := Some 1\<rparr>) example_heap
       = (Inl (Error ''Unknown type of linkedCryptoID''), example_heap)"
    using transcoders_frame [where h = example_heap and fromString = Identifier_fromString
                and y = "example_profile\<lparr>ProfileRecord.linkedCryptoID := Some 1\<rparr>",
              THEN conjunct2, THEN conjunct2, THEN conjunct2, THEN conjunct2, THEN conjunct2,
              THEN conjunct1, rule_format, OF l1 t1] .
  have e: "fst (cryptoKeyRecordOut Identifier_fromString
             (example_cryptoID\<lparr>CryptoIDRecord.attachedProfiles := [None]\<rparr>) example_heap) = Inl TypeError"
    using transcoders_frame [where h = example_heap and fromString' = Identifier_fromString
                and d = "example_cryptoID\<lparr>CryptoIDRecord.attachedProfiles := [None]\<rparr>",
              THEN conjunct2, THEN conjunct2, THEN conjunct2, THEN conjunct2, THEN conjunct2,
              THEN conjunct2, THEN conjunct2, THEN conjunct2, THEN conjunct2, THEN conjunct2,
              THEN conjunct2, THEN conjunct1, THEN mp, OF n] .
  show ?thesis using l0 t0 a b c d e by simp
qed

section \<open>The store manager: claims C8 and C5\<close>

lemma find_app:
  "find P (xs @ ys) = (case find P xs of None \<Rightarrow> find P ys | Some x \<Rightarrow> Some x)"
  by (induction xs) auto

lemma v0_v1_fresh:
  assumes "''self'' \<notin> set (map name d)" "''others'' \<notin> set (map name d)" "''profiles'' \<notin> set (map name d)"
  shows "v0_v1 d = Inr (d @ schema_v1)"
proof -
  have f: "find (\<lambda>s. name s = ''profiles'') d = None"
    using assms(3) by (force simp: find_None_iff)
  have m: "map (\<lambda>s. if name s = ''profiles'' then s\<lparr>indexes := indexes s @ [i]\<rparr> else s) d = d" for i
    using assms(3) by (induction d) auto
  show ?thesis
    using assms f m
    by (simp add: v0_v1_def createObjectStore_def createIndex_def schema_v1_def find_app)
qed

text \<open>
  C8: with previous version 0 the upgrade creates exactly the three partitions
  \<^verbatim>\<open>self\<close>, \<^verbatim>\<open>others\<close> and \<^verbatim>\<open>profiles\<close>, each with the inline key path
  \<^verbatim>\<open>identifier\<close> (where the transcoders put the encoded identifier string), and one
  non-unique index \<^verbatim>\<open>network\<close> on \<^verbatim>\<open>profiles\<close> over the field \<^verbatim>\<open>network\<close>. On a store
  that is already at version 1 or later the step is skipped and the database is left
  as it is.
\<close>

theorem upgrade_creates_partitions_once:
  "(oldVersion = 0 \<longrightarrow> ''self'' \<notin> set (map name d) \<longrightarrow> ''others'' \<notin> set (map name d) \<longrightarrow>
      ''profiles'' \<notin> set (map name d) \<longrightarrow>
      upgrade d oldVersion newVersion =
        Inr (d @ [\<lparr> name = ''self'', keyPath = ''identifier'', indexes = [] \<rparr>,
                  \<lparr> name = ''others'', keyPath = ''identifier'', indexes = [] \<rparr>,
                  \<lparr> name = ''profiles'', keyPath = ''identifier'',
                    indexes = [\<lparr> index_name = ''network'', index_keyPath = ''network'', unique = False \<rparr>] \<rparr>]))
   \<and> (1 \<le> oldVersion \<longrightarrow> upgrade d oldVersion newVersion = Inr d)"
  using v0_v1_fresh [of d] by (simp add: upgrade_def schema_v1_def)

theorem upgrade_creates_partitions_once_witness:
  "upgrade [] 0 1 = Inr schema_v1 \<and> (1::nat) \<le> 1 \<and> upgrade schema_v1 1 1 = Inr schema_v1"
  using upgrade_creates_partitions_once [of 0 "[]" 1]
        upgrade_creates_partitions_once [of 1 schema_v1 1] by (simp add: schema_v1_def)

subsection \<open>Lazy opening\<close>

lemma step_ready: "db s \<noteq> None \<Longrightarrow> db (step ev s) \<noteq> None \<and> opened (step ev s) = opened s"
  by (cases ev) auto

lemma run_ready: "db s \<noteq> None \<Longrightarrow> db (run es s) \<noteq> None \<and> opened (run es s) = opened s"
proof (induction es arbitrary: s)
  case Nil
  then show ?case by (simp add: run_def)
next
  case (Cons ev es)
  from Cons.prems have "db (step ev s) \<noteq> None" and "opened (step ev s) = opened s"
    using step_ready by blast+
  with Cons.IH [of "step ev s"] show ?case by (simp add: run_def)
qed

lemma run_calls_uninitialized:
  "db s = None \<Longrightarrow>
     run (replicate n Call) s =
       s\<lparr> in_flight := in_flight s @ [opened s ..< opened s + n],
          opened := opened s + n,
          returned := returned s @ map Pending [opened s ..< opened s + n] \<rparr>"
proof (induction n arbitrary: s)
  case 0
  then show ?case by (simp add: run_def)
next
  case (Suc n)
  let ?s = "step Call s"
  have d: "db ?s = None" using Suc.prems by simp
  have "run (replicate (Suc n) Call) s = run (replicate n Call) ?s"
    by (simp add: run_def)
  also have "\<dots> = ?s\<lparr> in_flight := in_flight ?s @ [opened ?s ..< opened ?s + n],
          opened := opened ?s + n,
          returned := returned ?s @ map Pending [opened ?s ..< opened ?s + n] \<rparr>"
    using Suc.IH [OF d] .
  also have "\<dots> = s\<lparr> in_flight := in_flight s @ [opened s ..< opened s + Suc n],
          opened := opened s + Suc n,
          returned := returned s @ map Pending [opened s ..< opened s + Suc n] \<rparr>"
    using Suc.prems by (simp add: upt_rec [of "opened s"])
  finally show ?case .
qed

lemma run_calls_ready:
  "db s = Some x \<Longrightarrow> run (replicate n Call) s = s\<lparr> returned := returned s @ replicate n (Fulfilled x) \<rparr>"
proof (induction n arbitrary: s)
  case 0
  then show ?case by (simp add: run_def)
next
  case (Suc n)
  let ?s = "step Call s"
  have d: "db ?s = Some x" using Suc.prems by simp
  have "run (replicate (Suc n) Call) s = run (replicate n Call) ?s"
    by (simp add: run_def)
  also have "\<dots> = ?s\<lparr> returned := returned ?s @ replicate n (Fulfilled x) \<rparr>"
    using Suc.IH [OF d] .
  also have "\<dots> = s\<lparr> returned := returned s @ replicate (Suc n) (Fulfilled x) \<rparr>"
    using Suc.prems by (simp add: replicate_app_Cons_same)
  finally show ?case .
qed

lemma run_Cons: "run (ev # es) s = run es (step ev s)"
  by (simp add: run_def)

text \<open>
  C5, as the claim states it, fails: two calls of \<^verbatim>\<open>db()\<close> made before the first
  \<^verbatim>\<open>openDB\<close> promise is fulfilled both find the variable undefined, so the storage
  engine is opened twice, and the two callers receive different handles.
\<close>

theorem concurrent_first_calls_open_twice:
  "opened (run [Call, Call, Fulfil 0, Fulfil 1] uninitialized) = 2
   \<and> returned (run [Call, Call, Fulfil 0, Fulfil 1] uninitialized) = [Fulfilled 0, Fulfilled 1]"
  by (simp add: run_def uninitialized_def)

text \<open>
  C5, amended: the manager keeps the handle, not the promise in flight. Once the
  variable holds a handle it holds one for ever and no later call opens the engine.
  Every call made while the variable is undefined opens the engine: \<open>n\<close> first calls
  before any fulfilment open it \<open>n\<close> times, each caller waiting for its own open.
  When the first open is fulfilled before the next call, the engine is opened once
  and every caller receives the same handle.
\<close>

theorem store_manager_opens:
  "(db s \<noteq> None \<longrightarrow> db (run es s) \<noteq> None \<and> opened (run es s) = opened s)
   \<and> opened (run (replicate n Call) uninitialized) = n
   \<and> returned (run (replicate n Call) uninitialized) = map Pending [0 ..< n]
   \<and> db (run (replicate n Call) uninitialized) = None
   \<and> opened (run (Call # Fulfil 0 # replicate n Call) uninitialized) = 1
   \<and> returned (run (Call # Fulfil 0 # replicate n Call) uninitialized) = replicate (Suc n) (Fulfilled 0)
   \<and> db (run (Call # Fulfil 0 # replicate n Call) uninitialized) = Some 0"
proof -
  have u: "db uninitialized = None" by (simp add: uninitialized_def)
  have a: "run (replicate n Call) uninitialized =
      uninitialized\<lparr> in_flight := in_flight uninitialized @ [opened uninitialized ..< opened uninitialized + n],
          opened := opened uninitialized + n,
          returned := returned uninitialized @ map Pending [opened uninitialized ..< opened uninitialized + n] \<rparr>"
    using run_calls_uninitialized [OF u] .
  let ?r = "\<lparr> db = Some 0, in_flight = [], opened = 1, returned = [Fulfilled 0] \<rparr>"
  have r: "step (Fulfil 0) (step Call uninitialized) = ?r"
    by (simp add: uninitialized_def)
  have "run (Call # Fulfil 0 # replicate n Call) uninitialized
      = run (replicate n Call) (step (Fulfil 0) (step Call uninitialized))"
    by (simp only: run_Cons)
  also have "\<dots> = run (replicate n Call) ?r"
    by (simp only: r)
  also have "\<dots> = ?r\<lparr> returned := returned ?r @ replicate n (Fulfilled 0) \<rparr>"
    by (rule run_calls_ready) simp
  finally have b: "run (Call # Fulfil 0 # replicate n Call) uninitialized
      = \<lparr> db = Some 0, in_flight = [], opened = 1, returned = replicate (Suc n) (Fulfilled 0) \<rparr>"
    by simp
  show ?thesis
    using run_ready [of s es] by (simp add: a b) (simp add: uninitialized_def)
qed

theorem store_manager_opens_witness:
  "db (run [Call, Fulfil 0] uninitialized) \<noteq> None
   \<and> db (run [Call, Fulfil 0, Call, Call] uninitialized) \<noteq> None
   \<and> opened (run [Call, Fulfil 0, Call, Call] uninitialized) = 1"
proof -
  have r: "db (run [Call, Fulfil 0] uninitialized) \<noteq> None"
    by (simp add: run_def uninitialized_def)
  have c: "run [Call, Call] (run [Call, Fulfil 0] uninitialized) = run [Call, Fulfil 0, Call, Call] uninitialized"
    by (simp add: run_def)
  have o: "opened (run [Call, Fulfil 0] uninitialized) = 1"
    by (simp add: run_def uninitialized_def)
  show ?thesis
    using store_manager_opens [of "run [Call, Fulfil 0] uninitialized" "[Call, Call]"] r c o by simp
qed

section \<open>The record access functions: claims C2, C6 and C7\<close>











lemma create_eq:
  "createCryptoID_DB toText x (st, h) =
     (if CryptoIDRecord.privateKey x \<noteq> None
      then (Inr (), st\<lparr> others := AList.delete (toText (CryptoIDRecord.identifier x)) (others st),
                        self := put (fst (cryptoKeyRecordIn toText x h)) (self st) \<rparr>, h)
      else (Inr (), st\<lparr> self := AList.delete (toText (CryptoIDRecord.identifier x)) (self st),
                        others := put (fst (cryptoKeyRecordIn toText x h)) (others st) \<rparr>, h))"
  by (simp add: createCryptoID_DB_def cryptoKeyRecordIn_def)

lemma delete_eq:
  "deleteCryptoID_DB toText i (st, h) =
     (Inr (), st\<lparr> self := AList.delete (toText i) (self st),
                     others := AList.delete (toText i) (others st) \<rparr>, h)"
  by (simp add: deleteCryptoID_DB_def Let_def)













lemma example_others_state_eq:
  "example_others_state = \<lparr> self = [], others = [(''ec_key:0xABCD'', example_cryptoID)] \<rparr>"
  by (simp add: example_others_state_def create_eq cryptoKeyRecordIn_def put_def memory_cryptoID_def
        example_cryptoID_def empty_db_def)





text \<open>
  C6: \<^verbatim>\<open>updateCryptoID\<close> of an identifier that neither partition holds fails with
  \<open>NotFoundError\<close> and leaves the storage state as it was; \<^verbatim>\<open>deleteCryptoID\<close> of
  such an identifier succeeds and leaves the storage state as it was.
\<close>

theorem update_delete_unknown_identifier:
  "(map_of (self st) (toText (PartialCryptoIDRecord.identifier partial)) = None \<longrightarrow>
    map_of (others st) (toText (PartialCryptoIDRecord.identifier partial)) = None \<longrightarrow>
      updateCryptoID_DB toText partial m (st, h) = (Inl NotFoundError, st, h))
   \<and> (map_of (self st) (toText i) = None \<longrightarrow> map_of (others st) (toText i) = None \<longrightarrow>
      deleteCryptoID_DB toText i (st, h) = (Inr (), st, h))"
proof (intro conjI impI)
  assume "map_of (self st) (toText (PartialCryptoIDRecord.identifier partial)) = None"
    and "map_of (others st) (toText (PartialCryptoIDRecord.identifier partial)) = None"
  then show "updateCryptoID_DB toText partial m (st, h) = (Inl NotFoundError, st, h)"
    by (simp add: updateCryptoID_DB_def Let_def)
next
  assume "map_of (self st) (toText i) = None" and "map_of (others st) (toText i) = None"
  then have "toText i \<notin> fst ` set (self st)" and "toText i \<notin> fst ` set (others st)"
    by (simp_all add: map_of_eq_None_iff)
  then show "deleteCryptoID_DB toText i (st, h) = (Inr (), st, h)"
    by (simp add: delete_eq)
qed

theorem update_delete_unknown_identifier_witness:
  "map_of (self example_others_state) (Identifier_toText (ECKeyIdentifier ''0x0000'')) = None
   \<and> map_of (others example_others_state) (Identifier_toText (ECKeyIdentifier ''0x0000'')) = None
   \<and> updateCryptoID_DB Identifier_toText
        (example_partial\<lparr> PartialCryptoIDRecord.identifier := ECKeyIdentifier ''0x0000'' \<rparr>) mode_overwrite
        (example_others_state, memory_heap) = (Inl NotFoundError, example_others_state, memory_heap)
   \<and> deleteCryptoID_DB Identifier_toText (ECKeyIdentifier ''0x0000'') (example_others_state, memory_heap)
        = (Inr (), example_others_state, memory_heap)"
proof -
  have s: "map_of (self example_others_state) (Identifier_toText (ECKeyIdentifier ''0x0000'')) = None"
    by (simp add: example_others_state_eq)
  have ot: "map_of (others example_others_state) (Identifier_toText (ECKeyIdentifier ''0x0000'')) = None"
    by (simp add: example_others_state_eq)
  show ?thesis
    using update_delete_unknown_identifier [of example_others_state Identifier_toText
                "example_partial\<lparr> PartialCryptoIDRecord.identifier := ECKeyIdentifier ''0x0000'' \<rparr>"
                mode_overwrite memory_heap "ECKeyIdentifier ''0x0000''"] s ot
    by simp
qed










end
